theory Spec2Isabelle
  imports Main "HOL-Library.AList"
begin

section \<open>Strings as the code uses them\<close>

text \<open>
  JavaScript strings are modelled as \<^typ>\<open>string\<close>, one \<^typ>\<open>char\<close> per code unit.
  The helpers below are the string methods the program calls.
\<close>

fun startsWith :: "string \<Rightarrow> string \<Rightarrow> bool" where
  "startsWith s [] = True"
| "startsWith [] (p # ps) = False"
| "startsWith (c # cs) (p # ps) = (c = p \<and> startsWith cs ps)"

fun str_includes :: "string \<Rightarrow> string \<Rightarrow> bool" where
  "str_includes [] p = (p = [])"
| "str_includes (c # cs) p = (startsWith (c # cs) p \<or> str_includes cs p)"


text \<open>
  \<^verbatim>\<open>toLowerCase\<close> on the letters A to Z; every other code unit is kept. (The program
  lower-cases a text only to search it for patterns made of lower-case ASCII letters,
  digits and punctuation, and no other character becomes one of these.)
\<close>

definition lower_char :: "char \<Rightarrow> char" where
  "lower_char c =
     (case map_of (zip ''ABCDEFGHIJKLMNOPQRSTUVWXYZ'' ''abcdefghijklmnopqrstuvwxyz'') c of
        Some l \<Rightarrow> l
      | None \<Rightarrow> c)"

definition toLowerCase :: "string \<Rightarrow> string" where
  "toLowerCase s = map lower_char s"

text \<open>A non-negative integer rendered by a template literal: its decimal digits.\<close>

fun show_nat :: "nat \<Rightarrow> string" where
  "show_nat n =
     (if n < 10 then [''0123456789'' ! n]
      else show_nat (n div 10) @ [''0123456789'' ! (n mod 10)])"

declare show_nat.simps [simp del]

text \<open>
  Truthiness of an optional string (\<^verbatim>\<open>string | null | undefined\<close>): present and not
  empty. \<^verbatim>\<open>a || b\<close> on such values picks the first truthy one.
\<close>

definition truthy :: "string option \<Rightarrow> bool" where
  "truthy s = (case s of None \<Rightarrow> False | Some t \<Rightarrow> t \<noteq> [])"

definition or_else :: "string option \<Rightarrow> string \<Rightarrow> string" where
  "or_else s d = (case s of None \<Rightarrow> d | Some t \<Rightarrow> if t = [] then d else t)"

section \<open>Data model\<close>

subsection \<open>Chat-platform messages\<close>

text \<open>
  The parts of a discord.js \<^verbatim>\<open>Message\<close> that the program reads. Two renderings that
  the code obtains from floating point and locale routines are carried as the text they
  produce: \<open>att_sizeInMB\<close> is \<^verbatim>\<open>(size / (1024 * 1024)).toFixed(2)\<close> and
  \<open>createdAtLocale\<close> is \<^verbatim>\<open>createdAt.toLocaleString()\<close>.
\<close>

record Attachment =
  att_name :: string
  att_sizeInMB :: string
  att_contentType :: "string option"
  att_description :: "string option"
  att_url :: string
  att_height :: "nat option"
  att_width :: "nat option"

record EmbedField =
  ef_name :: string
  ef_value :: string

record Embed =
  emb_title :: "string option"
  emb_description :: "string option"
  emb_url :: "string option"
  emb_author :: "string option"
  emb_fields :: "EmbedField list"
  emb_footer :: "string option"
  emb_image :: "string option"
  emb_thumbnail :: "string option"
  emb_timestamp :: "string option"

record Sticker =
  stk_name :: string
  stk_description :: "string option"

record Poll =
  poll_question :: string
  poll_answers :: "string list"
  poll_expiresAt :: "string option"

record Reaction =
  rc_emoji_name :: "string option"
  rc_count :: nat

text \<open>
  A reply reference: the referenced message id, and the referenced message (author name
  and text) when the channel cache still holds it.
\<close>

record Reference =
  ref_messageId :: "string option"
  ref_cached :: "(string \<times> string) option"

record Message =
  msg_id :: string
  msg_content :: string
  createdTimestamp :: nat
  createdAtLocale :: string
  author_bot :: bool
  author_username :: string
  author_displayName :: "string option"
  member_displayName :: "string option"
  attachments :: "Attachment list"
  embeds :: "Embed list"
  stickers :: "Sticker list"
  poll :: "Poll option"
  reactions :: "Reaction list"
  reference :: "Reference option"

subsection \<open>Tool calls and tool results\<close>

text \<open>
  \<^verbatim>\<open>ToolCall\<close> is the SDK's \<^verbatim>\<open>ChatCompletionMessageToolCall\<close>:
  \<^verbatim>\<open>{ id, type, function: { name, arguments } }\<close>.
\<close>

record ToolCall =
  tc_id :: string
  tc_type :: string
  fn_name :: string
  fn_arguments :: string

record ToolResult =
  tr_tool_call_id :: string
  tr_name :: "string option"
  tr_content :: string

section \<open>The tool-call store\<close>

record ToolCallData =
  messageId :: string
  messageContent :: string
  timestamp :: nat
  toolCalls :: "ToolCall list"
  toolResults :: "ToolResult list"

text \<open>
  \<^verbatim>\<open>toolCallsMap\<close> is a JavaScript \<^verbatim>\<open>Map\<close>: keys in insertion order, one entry per
  key. It is an association list; \<^const>\<open>AList.update\<close> is \<^verbatim>\<open>Map.set\<close> (replace in
  place, or append), \<^const>\<open>map_of\<close> is \<^verbatim>\<open>Map.get\<close> and \<^const>\<open>AList.delete\<close> is
  \<^verbatim>\<open>Map.delete\<close>.
\<close>

type_synonym ToolCallsStore = "(string \<times> ToolCallData) list"

definition generateMessageKey :: "Message \<Rightarrow> string" where
  "generateMessageKey message =
     msg_id message @ ''_'' @ show_nat (createdTimestamp message)"

definition storeToolCallsForMessage ::
  "ToolCallsStore \<Rightarrow> Message \<Rightarrow> ToolCall list \<Rightarrow> ToolResult list \<Rightarrow> ToolCallsStore" where
  "storeToolCallsForMessage toolCallsMap message tcs trs =
     AList.update (generateMessageKey message)
       \<lparr> messageId = msg_id message,
         messageContent = msg_content message,
         timestamp = createdTimestamp message,
         toolCalls = tcs,
         toolResults = trs \<rparr>
       toolCallsMap"

definition getToolCallsForMessage :: "ToolCallsStore \<Rightarrow> Message \<Rightarrow> ToolCallData option" where
  "getToolCallsForMessage toolCallsMap message =
     map_of toolCallsMap (generateMessageKey message)"

fun getToolCallsByMessageId :: "ToolCallsStore \<Rightarrow> string \<Rightarrow> ToolCallData option" where
  "getToolCallsByMessageId [] mid = None"
| "getToolCallsByMessageId ((key, data) # rest) mid =
     (if messageId data = mid then Some data else getToolCallsByMessageId rest mid)"

text \<open>
  The eviction loop visits every key of the map. For each one it reads the entry
  (\<^verbatim>\<open>data?.messageId || \<close>\<^verbatim>\<open>''\<close> is the empty string when the entry is gone) and deletes
  the key when neither the key nor the message id belongs to the recent messages.
\<close>

fun cleanupLoop ::
  "string list \<Rightarrow> string list \<Rightarrow> string list \<Rightarrow> ToolCallsStore \<Rightarrow> ToolCallsStore" where
  "cleanupLoop recentMessageKeys recentMessageIds [] toolCallsMap = toolCallsMap"
| "cleanupLoop recentMessageKeys recentMessageIds (key # keys) toolCallsMap =
     (let data = map_of toolCallsMap key;
          dataId = (case data of None \<Rightarrow> [] | Some d \<Rightarrow> messageId d)
      in cleanupLoop recentMessageKeys recentMessageIds keys
           (if key \<notin> set recentMessageKeys \<and> dataId \<notin> set recentMessageIds
            then AList.delete key toolCallsMap
            else toolCallsMap))"

definition cleanupOldToolCalls :: "ToolCallsStore \<Rightarrow> Message list \<Rightarrow> ToolCallsStore" where
  "cleanupOldToolCalls toolCallsMap recentMessages =
     cleanupLoop (map generateMessageKey recentMessages) (map msg_id recentMessages)
       (map fst toolCallsMap) toolCallsMap"

subsection \<open>Fetching the live window\<close>

text \<open>
  \<^verbatim>\<open>fetchRecentMessages\<close> asks the chat platform for the newest messages, after the
  channel's anchor message when one is configured. The platform's answers are the
  fields of \<open>Channel\<close>: each fetch either fails or yields the messages newest first.
  \<open>UnknownMessage\<close> is the platform error with code 10008.
\<close>

datatype FetchError = UnknownMessage | OtherFetchError

record Channel =
  anchorId :: "string option"
  fetchAfterAnchor :: "FetchError + Message list"
  fetchLatest :: "FetchError + Message list"

definition fetchRecentMessages :: "Channel \<Rightarrow> Message list" where
  "fetchRecentMessages channel =
     (let fetched =
        (if truthy (anchorId channel) then
           (case fetchAfterAnchor channel of
              Inr messages \<Rightarrow> Inr messages
            | Inl UnknownMessage \<Rightarrow> fetchLatest channel
            | Inl e \<Rightarrow> Inl e)
         else fetchLatest channel)
      in case fetched of
           Inr messages \<Rightarrow> rev messages
         | Inl e \<Rightarrow> [])"

section \<open>Properties of the tool-call store\<close>

text \<open>A \<^verbatim>\<open>Map\<close> holds one entry per key; storing and evicting keep it so.\<close>

lemma distinct_storeToolCallsForMessage:
  "distinct (map fst toolCallsMap) \<Longrightarrow>
   distinct (map fst (storeToolCallsForMessage toolCallsMap message tcs trs))"
  by (simp add: storeToolCallsForMessage_def distinct_update)

lemma cleanupLoop_filter:
  "distinct (map fst m) \<Longrightarrow>
   cleanupLoop K I ks m =
     filter (\<lambda>(k, d). k \<in> set ks \<longrightarrow> (k \<in> set K \<or> messageId d \<in> set I)) m"
proof (induction ks arbitrary: m)
  case Nil
  then show ?case by simp
next
  case (Cons key keys)
  let ?dataId = "case map_of m key of None \<Rightarrow> [] | Some d \<Rightarrow> messageId d"
  have ent: "\<And>d. (key, d) \<in> set m \<Longrightarrow> ?dataId = messageId d"
    using Cons.prems by simp
  show ?case
  proof (cases "key \<notin> set K \<and> ?dataId \<notin> set I")
    case True
    have d: "distinct (map fst (AList.delete key m))"
      using Cons.prems by (simp add: distinct_delete)
    have "cleanupLoop K I (key # keys) m = cleanupLoop K I keys (AList.delete key m)"
      using True by (simp add: Let_def)
    also have "\<dots> = filter (\<lambda>(k, d). k \<in> set keys \<longrightarrow> (k \<in> set K \<or> messageId d \<in> set I))
                       (AList.delete key m)"
      by (rule Cons.IH [OF d])
    also have "\<dots> = filter (\<lambda>(k, d). k \<in> set (key # keys) \<longrightarrow> (k \<in> set K \<or> messageId d \<in> set I)) m"
      unfolding AList.delete_eq filter_filter
      by (rule filter_cong) (use True ent in auto)
    finally show ?thesis .
  next
    case False
    have "cleanupLoop K I (key # keys) m = cleanupLoop K I keys m"
      using False by (auto simp add: Let_def)
    also have "\<dots> = filter (\<lambda>(k, d). k \<in> set keys \<longrightarrow> (k \<in> set K \<or> messageId d \<in> set I)) m"
      by (rule Cons.IH [OF Cons.prems])
    also have "\<dots> = filter (\<lambda>(k, d). k \<in> set (key # keys) \<longrightarrow> (k \<in> set K \<or> messageId d \<in> set I)) m"
      by (rule filter_cong) (use False ent in auto)
    finally show ?thesis .
  qed
qed

lemma cleanupOldToolCalls_filter:
  assumes "distinct (map fst toolCallsMap)"
  shows "cleanupOldToolCalls toolCallsMap recentMessages =
     filter (\<lambda>(key, data). key \<in> set (map generateMessageKey recentMessages) \<or>
                            messageId data \<in> set (map msg_id recentMessages)) toolCallsMap"
  unfolding cleanupOldToolCalls_def cleanupLoop_filter [OF assms]
proof (rule filter_cong)
  fix x assume "x \<in> set toolCallsMap"
  then have "fst x \<in> set (map fst toolCallsMap)" by simp
  then show "(case x of (k, d) \<Rightarrow> k \<in> set (map fst toolCallsMap) \<longrightarrow>
                k \<in> set (map generateMessageKey recentMessages) \<or>
                messageId d \<in> set (map msg_id recentMessages)) =
             (case x of (key, data) \<Rightarrow>
                key \<in> set (map generateMessageKey recentMessages) \<or>
                messageId data \<in> set (map msg_id recentMessages))"
    by (cases x) simp
qed simp

lemma distinct_cleanupOldToolCalls:
  "distinct (map fst toolCallsMap) \<Longrightarrow>
   distinct (map fst (cleanupOldToolCalls toolCallsMap recentMessages))"
  by (simp add: cleanupOldToolCalls_filter distinct_map_filter)

lemma cleanupLoop_empty_window:
  "cleanupLoop [] [] ks m = filter (\<lambda>(k, d). k \<notin> set ks) m"
proof (induction ks arbitrary: m)
  case Nil
  then show ?case by simp
next
  case (Cons key keys)
  have "cleanupLoop [] [] (key # keys) m = cleanupLoop [] [] keys (AList.delete key m)"
    by (simp add: Let_def)
  also have "\<dots> = filter (\<lambda>(k, d). k \<notin> set keys) (AList.delete key m)"
    by (rule Cons.IH)
  also have "\<dots> = filter (\<lambda>(k, d). k \<notin> set (key # keys)) m"
    unfolding AList.delete_eq filter_filter
    by (rule filter_cong) auto
  finally show ?case .
qed

text \<open>
  The three ways in which the fetch that \<^verbatim>\<open>fetchRecentMessages\<close> relies on can fail: the
  anchored fetch with an error other than 10008 (the plain fetch is then not tried), the
  plain fetch made after error 10008, and the plain fetch of a channel without anchor.
\<close>

lemma fetchRecentMessages_anchored_failure:
  "truthy (anchorId channel) \<Longrightarrow> fetchAfterAnchor channel = Inl OtherFetchError \<Longrightarrow>
   fetchRecentMessages channel = []"
  by (simp add: fetchRecentMessages_def)

lemma fetchRecentMessages_fallback_failure:
  "truthy (anchorId channel) \<Longrightarrow> fetchAfterAnchor channel = Inl UnknownMessage \<Longrightarrow>
   fetchLatest channel = Inl e \<Longrightarrow> fetchRecentMessages channel = []"
  by (simp add: fetchRecentMessages_def)

lemma fetchRecentMessages_plain_failure:
  "\<not> truthy (anchorId channel) \<Longrightarrow> fetchLatest channel = Inl e \<Longrightarrow>
   fetchRecentMessages channel = []"
  by (simp add: fetchRecentMessages_def)

lemma cleanupOldToolCalls_Nil: "cleanupOldToolCalls toolCallsMap [] = []"
proof -
  have "cleanupOldToolCalls toolCallsMap [] =
        filter (\<lambda>(k, d). k \<notin> set (map fst toolCallsMap)) toolCallsMap"
    by (simp add: cleanupOldToolCalls_def cleanupLoop_empty_window)
  also have "\<dots> = []"
    by (auto simp: filter_empty_conv intro: rev_image_eqI)
  finally show ?thesis .
qed

subsection \<open>Example values\<close>

definition ex_message :: "string \<Rightarrow> nat \<Rightarrow> bool \<Rightarrow> string \<Rightarrow> Message" where
  "ex_message i t b c =
     \<lparr> msg_id = i, msg_content = c, createdTimestamp = t, createdAtLocale = ''1/1/2025, 10:00:00 AM'',
       author_bot = b, author_username = ''ann'', author_displayName = None,
       member_displayName = None, attachments = [], embeds = [], stickers = [],
       poll = None, reactions = [], reference = None \<rparr>"

definition ex_call :: "string \<Rightarrow> string \<Rightarrow> ToolCall" where
  "ex_call i n = \<lparr> tc_id = i, tc_type = ''function'', fn_name = n, fn_arguments = ''{}'' \<rparr>"

definition ex_result :: "string \<Rightarrow> string \<Rightarrow> ToolResult" where
  "ex_result i c = \<lparr> tr_tool_call_id = i, tr_name = None, tr_content = c \<rparr>"

definition ex_entry :: "string \<Rightarrow> nat \<Rightarrow> ToolCallData" where
  "ex_entry i t =
     \<lparr> messageId = i, messageContent = ''done'', timestamp = t,
       toolCalls = [ex_call ''call_1'' ''get_date_time''],
       toolResults = [ex_result ''call_1'' ''noon''] \<rparr>"

definition ex_ledger :: ToolCallsStore where
  "ex_ledger = [(''42_100'', ex_entry ''42'' 100), (''7_5'', ex_entry ''7'' 5)]"

lemma generateMessageKey_ex [simp]:
  "generateMessageKey (ex_message ''42'' 101 b c) = ''42_101''"
  "generateMessageKey (ex_message ''7'' 5 b c) = ''7_5''"
  by (simp_all add: generateMessageKey_def ex_message_def show_nat.simps)

subsection \<open>Claims about the store\<close>

text \<open>
  Claim C1. Eviction keeps every entry whose message id belongs to the retained window,
  also when its composite key does not; an entry that eviction removes has neither its
  key nor its message id in the window. (The ledger is a \<^verbatim>\<open>Map\<close>: its keys are
  pairwise distinct.)
\<close>

theorem cleanupOldToolCalls_keeps_live_ids:
  assumes "distinct (map fst toolCallsMap)"
  shows "(\<forall>(key, data) \<in> set toolCallsMap.
            messageId data \<in> set (map msg_id recentMessages) \<longrightarrow>
            (key, data) \<in> set (cleanupOldToolCalls toolCallsMap recentMessages)) \<and>
         (\<forall>(key, data) \<in> set toolCallsMap.
            (key, data) \<notin> set (cleanupOldToolCalls toolCallsMap recentMessages) \<longrightarrow>
            key \<notin> set (map generateMessageKey recentMessages) \<and>
            messageId data \<notin> set (map msg_id recentMessages))"
  unfolding cleanupOldToolCalls_filter [OF assms] by auto

theorem cleanupOldToolCalls_keeps_live_ids_witness:
  "distinct (map fst ex_ledger) \<and>
   (''42_100'', ex_entry ''42'' 100) \<in> set ex_ledger \<and>
   ''42_100'' \<notin> set (map generateMessageKey [ex_message ''42'' 101 True ''done'']) \<and>
   (''42_100'', ex_entry ''42'' 100)
      \<in> set (cleanupOldToolCalls ex_ledger [ex_message ''42'' 101 True ''done'']) \<and>
   (''7_5'', ex_entry ''7'' 5)
      \<notin> set (cleanupOldToolCalls ex_ledger [ex_message ''42'' 101 True ''done''])"
proof -
  have d: "distinct (map fst ex_ledger)"
    by (simp add: ex_ledger_def)
  have i: "messageId (ex_entry ''42'' 100) \<in> set (map msg_id [ex_message ''42'' 101 True ''done''])"
    by (simp add: ex_entry_def ex_message_def)
  have k: "(''42_100'', ex_entry ''42'' 100)
      \<in> set (cleanupOldToolCalls ex_ledger [ex_message ''42'' 101 True ''done''])"
    using cleanupOldToolCalls_keeps_live_ids [OF d, of "[ex_message ''42'' 101 True ''done'']"] i
    by (auto simp: ex_ledger_def)
  have r: "(''7_5'', ex_entry ''7'' 5)
      \<notin> set (cleanupOldToolCalls ex_ledger [ex_message ''42'' 101 True ''done''])"
    by (simp add: cleanupOldToolCalls_filter [OF d])
       (simp add: ex_ledger_def ex_entry_def ex_message_def)
  show ?thesis using d k r by (simp add: ex_ledger_def)
qed

text \<open>
  Claim C7. Storing tool calls for a message and then reading them back with the same
  message returns the entry just stored, whatever the ledger held before: the new entry
  replaces any entry under the same composite key, and every other key is left as it was.
  Storing has no failing branch.
\<close>

theorem store_then_get:
  "getToolCallsForMessage (storeToolCallsForMessage toolCallsMap message tcs trs) message =
     Some \<lparr> messageId = msg_id message, messageContent = msg_content message,
            timestamp = createdTimestamp message, toolCalls = tcs, toolResults = trs \<rparr> \<and>
   map_of (storeToolCallsForMessage toolCallsMap message tcs trs) =
     (map_of toolCallsMap)(generateMessageKey message \<mapsto>
        \<lparr> messageId = msg_id message, messageContent = msg_content message,
          timestamp = createdTimestamp message, toolCalls = tcs, toolResults = trs \<rparr>)"
  by (simp add: getToolCallsForMessage_def storeToolCallsForMessage_def update_conv')

theorem store_then_get_witness:
  "getToolCallsForMessage
     (storeToolCallsForMessage ex_ledger (ex_message ''7'' 5 True ''again'') [] []) 
     (ex_message ''7'' 5 True ''again'') =
   Some \<lparr> messageId = ''7'', messageContent = ''again'', timestamp = 5,
          toolCalls = [], toolResults = [] \<rparr> \<and>
   getToolCallsForMessage ex_ledger (ex_message ''7'' 5 True ''again'') = Some (ex_entry ''7'' 5)"
  using store_then_get [of ex_ledger "ex_message ''7'' 5 True ''again''" "[]" "[]"]
  by (simp add: getToolCallsForMessage_def ex_ledger_def) (simp add: ex_message_def)

text \<open>
  Claim C10. Eviction with an empty window deletes every entry. One failed fetch is
  enough for an empty window, and so for an empty ledger: with an anchor, the anchored
  fetch failing with any error but 10008, whatever the plain fetch would have answered;
  with an anchor and error 10008, the plain fetch failing; without an anchor, the plain
  fetch failing, whatever the anchored fetch would have answered.
\<close>

theorem cleanupOldToolCalls_empty_window:
  "cleanupOldToolCalls toolCallsMap [] = [] \<and>
   (truthy (anchorId channel) \<and> fetchAfterAnchor channel = Inl OtherFetchError \<longrightarrow>
      fetchRecentMessages channel = [] \<and>
      cleanupOldToolCalls toolCallsMap (fetchRecentMessages channel) = []) \<and>
   (truthy (anchorId channel) \<and> fetchAfterAnchor channel = Inl UnknownMessage \<and>
    fetchLatest channel = Inl e \<longrightarrow>
      fetchRecentMessages channel = [] \<and>
      cleanupOldToolCalls toolCallsMap (fetchRecentMessages channel) = []) \<and>
   (\<not> truthy (anchorId channel) \<and> fetchLatest channel = Inl e \<longrightarrow>
      fetchRecentMessages channel = [] \<and>
      cleanupOldToolCalls toolCallsMap (fetchRecentMessages channel) = [])"
  by (simp add: cleanupOldToolCalls_Nil fetchRecentMessages_anchored_failure
        fetchRecentMessages_fallback_failure fetchRecentMessages_plain_failure)

text \<open>
  Three channels, one for each failure. On the first the plain fetch would have
  returned a message that keeps an entry of the example ledger.
\<close>

definition ex_anchored_channel :: Channel where
  "ex_anchored_channel =
     \<lparr> anchorId = Some ''40'', fetchAfterAnchor = Inl OtherFetchError,
       fetchLatest = Inr [ex_message ''42'' 101 True ''done''] \<rparr>"

definition ex_stale_anchor_channel :: Channel where
  "ex_stale_anchor_channel =
     \<lparr> anchorId = Some ''40'', fetchAfterAnchor = Inl UnknownMessage,
       fetchLatest = Inl OtherFetchError \<rparr>"

definition ex_plain_channel :: Channel where
  "ex_plain_channel =
     \<lparr> anchorId = None, fetchAfterAnchor = Inr [ex_message ''42'' 101 True ''done''],
       fetchLatest = Inl OtherFetchError \<rparr>"

theorem cleanupOldToolCalls_empty_window_witness:
  "ex_ledger \<noteq> [] \<and>
   truthy (anchorId ex_anchored_channel) \<and>
   fetchAfterAnchor ex_anchored_channel = Inl OtherFetchError \<and>
   fetchLatest ex_anchored_channel = Inr [ex_message ''42'' 101 True ''done''] \<and>
   cleanupOldToolCalls ex_ledger [ex_message ''42'' 101 True ''done''] \<noteq> [] \<and>
   cleanupOldToolCalls ex_ledger (fetchRecentMessages ex_anchored_channel) = [] \<and>
   cleanupOldToolCalls ex_ledger (fetchRecentMessages ex_stale_anchor_channel) = [] \<and>
   cleanupOldToolCalls ex_ledger (fetchRecentMessages ex_plain_channel) = []"
proof -
  have n: "ex_ledger \<noteq> []"
    by (simp add: ex_ledger_def)
  have a: "truthy (anchorId ex_anchored_channel)"
    by (simp add: ex_anchored_channel_def truthy_def)
  have f: "fetchAfterAnchor ex_anchored_channel = Inl OtherFetchError"
    by (simp add: ex_anchored_channel_def)
  have l: "fetchLatest ex_anchored_channel = Inr [ex_message ''42'' 101 True ''done'']"
    by (simp add: ex_anchored_channel_def)
  have k: "cleanupOldToolCalls ex_ledger [ex_message ''42'' 101 True ''done''] \<noteq> []"
    by (simp add: cleanupOldToolCalls_def ex_ledger_def ex_entry_def ex_message_def Let_def)
  have s: "truthy (anchorId ex_stale_anchor_channel) \<and>
           fetchAfterAnchor ex_stale_anchor_channel = Inl UnknownMessage \<and>
           fetchLatest ex_stale_anchor_channel = Inl OtherFetchError"
    by (simp add: ex_stale_anchor_channel_def truthy_def)
  have p: "\<not> truthy (anchorId ex_plain_channel) \<and>
           fetchLatest ex_plain_channel = Inl OtherFetchError"
    by (simp add: ex_plain_channel_def truthy_def)
  from cleanupOldToolCalls_empty_window [of ex_ledger ex_anchored_channel] a f
  have w1: "cleanupOldToolCalls ex_ledger (fetchRecentMessages ex_anchored_channel) = []"
    by blast
  from cleanupOldToolCalls_empty_window
         [of ex_ledger ex_stale_anchor_channel OtherFetchError] s
  have w2: "cleanupOldToolCalls ex_ledger (fetchRecentMessages ex_stale_anchor_channel) = []"
    by blast
  from cleanupOldToolCalls_empty_window [of ex_ledger ex_plain_channel OtherFetchError] p
  have w3: "cleanupOldToolCalls ex_ledger (fetchRecentMessages ex_plain_channel) = []"
    by blast
  note facts = n a f l k w1 w2 w3
  show ?thesis
    by (intro conjI) (rule facts)+
qed

section \<open>The conversation assembler\<close>

subsection \<open>Messages for the chat-completion endpoint\<close>

datatype MessageContentPart =
    Text string
  | ImageUrl string string
  | InputAudio string string

datatype Role = System | User | Assistant | Tool

datatype Content = Null | Str string | Parts "MessageContentPart list"

record AIMessage =
  role :: Role
  content :: Content
  name :: "string option"
  tool_calls :: "ToolCall list option"
  tool_call_id :: "string option"

subsection \<open>More string helpers\<close>

text \<open>The double quote, and \<^verbatim>\<open>Array.prototype.join\<close>.\<close>

definition dq :: string where
  "dq = [CHR 0x22]"

fun join :: "string \<Rightarrow> string list \<Rightarrow> string" where
  "join sep [] = []"
| "join sep [x] = x"
| "join sep (x # y # ys) = x @ sep @ join sep (y # ys)"

text \<open>\<^verbatim>\<open>trim\<close> removes the white space at both ends (tab, line feed, vertical tab, form
  feed, carriage return, space, no-break space).\<close>

definition is_space :: "char \<Rightarrow> bool" where
  "is_space c =
     (c \<in> set [CHR 0x09, CHR 0x0A, CHR 0x0B, CHR 0x0C, CHR 0x0D, CHR 0x20, CHR 0xA0])"

definition trim :: "string \<Rightarrow> string" where
  "trim s = rev (dropWhile is_space (rev (dropWhile is_space s)))"

subsection \<open>Images\<close>

text \<open>
  \<^verbatim>\<open>imageCache\<close> is a \<^verbatim>\<open>Map\<close> from URL to data URL. The download (fetch, status check,
  body, base64 encoding) is the parameter \<open>download\<close>: \<open>Some\<close> of the base64 text, or
  \<open>None\<close> when any of these steps throws. A cached value is returned as it is; otherwise
  the MIME type is read off the lower-cased URL, the cache drops its oldest key once it
  holds 100 entries, and the data URL is cached. A failed download falls back to the URL.
\<close>

type_synonym ImageCache = "(string \<times> string) list"

definition mimeType :: "string \<Rightarrow> string" where
  "mimeType url =
     (let urlLower = toLowerCase url
      in if str_includes urlLower ''.jpg'' \<or> str_includes urlLower ''.jpeg''
         then ''image/jpeg''
         else if str_includes urlLower ''.gif'' then ''image/gif''
         else if str_includes urlLower ''.webp'' then ''image/webp''
         else ''image/png'')"

definition convertImageToBase64 ::
  "(string \<Rightarrow> string option) \<Rightarrow> ImageCache \<Rightarrow> string \<Rightarrow> string \<times> ImageCache" where
  "convertImageToBase64 download imageCache url =
     (if truthy (map_of imageCache url) then (the (map_of imageCache url), imageCache)
      else
        (case download url of
           None \<Rightarrow> (url, imageCache)
         | Some base64 \<Rightarrow>
             (let dataUrl = ''data:'' @ mimeType url @ '';base64,'' @ base64;
                  evicted =
                    (if length imageCache \<ge> 100 then
                       (case imageCache of
                          [] \<Rightarrow> imageCache
                        | (firstKey, v) # rest \<Rightarrow>
                            if firstKey \<noteq> [] then AList.delete firstKey imageCache
                            else imageCache)
                     else imageCache)
              in (dataUrl, AList.update url dataUrl evicted))))"

text \<open>
  An attachment becomes an image part when its content type starts with \<^verbatim>\<open>image/\<close>, an
  audio description when it starts with \<^verbatim>\<open>audio/\<close>, and a file description otherwise.
  (\<^verbatim>\<open>convertImageToBase64\<close> catches its own failures, so the \<^verbatim>\<open>catch\<close> around its call
  is never entered.)
\<close>

definition convertAttachmentToContentPart ::
  "(string \<Rightarrow> string option) \<Rightarrow> ImageCache \<Rightarrow> Attachment \<Rightarrow> MessageContentPart \<times> ImageCache" where
  "convertAttachmentToContentPart download imageCache attachment =
     (let contentType = att_contentType attachment;
          ct = or_else contentType [];
          url = att_url attachment
      in
        if truthy contentType \<and> startsWith ct ''image/'' then
          (let (base64Url, imageCache') = convertImageToBase64 download imageCache url
           in (ImageUrl base64Url ''auto'', imageCache'))
        else if truthy contentType \<and> startsWith ct ''audio/'' then
          (Text (''[Audio File: '' @ att_name attachment @ '' ('' @ att_sizeInMB attachment @
                 ''MB) - '' @ ct @ '' - URL: '' @ url @ '']''), imageCache)
        else
          (let t0 = ''[Attachment: '' @ att_name attachment @ '' ('' @ att_sizeInMB attachment @ ''MB)'';
               t1 =
                 (if truthy contentType then
                    (if startsWith ct ''video/'' then
                       t0 @ '' - Video'' @
                       (case (att_height attachment, att_width attachment) of
                          (Some h, Some w) \<Rightarrow>
                            if h \<noteq> 0 \<and> w \<noteq> 0
                            then '' ('' @ show_nat w @ ''x'' @ show_nat h @ '')'' else []
                        | _ \<Rightarrow> [])
                     else if str_includes ct ''pdf'' then t0 @ '' - PDF Document''
                     else if str_includes ct ''text/'' then t0 @ '' - Text File''
                     else t0 @ '' - File ('' @ ct @ '')'')
                  else t0);
               t2 =
                 (if truthy (att_description attachment)
                  then t1 @ '' - Description: '' @ dq @ the (att_description attachment) @ dq
                  else t1)
           in (Text (t2 @ '' - URL: '' @ url @ '']''), imageCache)))"

subsection \<open>Text renderings of platform content\<close>

definition convertEmbedToText :: "Embed \<Rightarrow> string" where
  "convertEmbedToText emb =
     ''[Embed:'' @
     (if truthy (emb_title emb)
      then '' Title: '' @ dq @ the (emb_title emb) @ dq else []) @
     (if truthy (emb_description emb)
      then '' Description: '' @ dq @ the (emb_description emb) @ dq else []) @
     (if truthy (emb_url emb) then '' URL: '' @ the (emb_url emb) else []) @
     (case emb_author emb of
        Some a \<Rightarrow> '' Author: '' @ dq @ a @ dq
      | None \<Rightarrow> []) @
     (if emb_fields emb \<noteq> []
      then '' Fields: '' @
           join '', '' (map (\<lambda>field. dq @ ef_name field @ '': '' @ ef_value field @ dq)
                           (emb_fields emb))
      else []) @
     (case emb_footer emb of
        Some f \<Rightarrow> '' Footer: '' @ dq @ f @ dq
      | None \<Rightarrow> []) @
     (case emb_image emb of Some i \<Rightarrow> '' Image: '' @ i | None \<Rightarrow> []) @
     (case emb_thumbnail emb of Some t \<Rightarrow> '' Thumbnail: '' @ t | None \<Rightarrow> []) @
     (if truthy (emb_timestamp emb) then '' Timestamp: '' @ the (emb_timestamp emb) else []) @
     '']''"

definition convertStickerToText :: "Sticker \<Rightarrow> string" where
  "convertStickerToText sticker =
     ''[Sticker: '' @ dq @ stk_name sticker @ dq @ '' - '' @
     or_else (stk_description sticker) ''No description'' @ '']''"

definition convertReactionsToText :: "Message \<Rightarrow> string" where
  "convertReactionsToText message =
     (if reactions message = [] then []
      else ''[Reactions: '' @
           join '', '' (map (\<lambda>reaction. or_else (rc_emoji_name reaction) ''Unknown'' @
                                        '' ('' @ show_nat (rc_count reaction) @ '')'')
                           (reactions message)) @
           '']'')"

definition convertMessageReferenceToText :: "Message \<Rightarrow> string" where
  "convertMessageReferenceToText message =
     (case reference message of
        None \<Rightarrow> []
      | Some r \<Rightarrow>
          ''[Reply to: '' @
          (if truthy (ref_messageId r) then
             (case ref_cached r of
                Some (authorName, referencedContent) \<Rightarrow>
                  (let content = or_else (Some referencedContent) ''[No text content]'';
                       truncatedContent =
                         (if length content > 100 then take 100 content @ ''...'' else content)
                   in authorName @ '': '' @ dq @ truncatedContent @ dq)
              | None \<Rightarrow> ''Message ID '' @ the (ref_messageId r))
           else []) @
          '']'')"

definition convertPollToText :: "Poll \<Rightarrow> string" where
  "convertPollToText p =
     ''[Poll: '' @ dq @ poll_question p @ dq @
     (if poll_answers p \<noteq> []
      then '' Options: '' @ join '', '' (map (\<lambda>answer. dq @ answer @ dq) (poll_answers p))
      else []) @
     (case poll_expiresAt p of Some e \<Rightarrow> '' Expires: '' @ e | None \<Rightarrow> []) @
     '']''"

subsection \<open>Assembly\<close>

text \<open>
  The attachments of one message are converted in list order, the image cache passing
  from one conversion to the next.
\<close>

fun convertAttachments ::
  "(string \<Rightarrow> string option) \<Rightarrow> ImageCache \<Rightarrow> Attachment list \<Rightarrow> MessageContentPart list \<times> ImageCache" where
  "convertAttachments download imageCache [] = ([], imageCache)"
| "convertAttachments download imageCache (a # as) =
     (let (part, cache1) = convertAttachmentToContentPart download imageCache a;
          (parts, cache2) = convertAttachments download cache1 as
      in (part # parts, cache2))"

text \<open>The bot's own attachments: images natively, anything else as a short note.\<close>

fun convertBotAttachments ::
  "(string \<Rightarrow> string option) \<Rightarrow> ImageCache \<Rightarrow> Attachment list \<Rightarrow> MessageContentPart list \<times> ImageCache" where
  "convertBotAttachments download imageCache [] = ([], imageCache)"
| "convertBotAttachments download imageCache (att # as) =
     (let isImage = (case att_contentType att of
                       None \<Rightarrow> False
                     | Some ct \<Rightarrow> startsWith ct ''image/'');
          (part, cache1) =
            (if isImage then
               (let (base64Url, c) = convertImageToBase64 download imageCache (att_url att)
                in (ImageUrl base64Url ''auto'', c))
             else
               (Text (''[Bot shared: '' @ att_name att @
                      (if isImage then '' (image)'' else []) @ '']''), imageCache));
          (parts, cache2) = convertBotAttachments download cache1 as
      in (part # parts, cache2))"

definition userContentParts ::
  "(string \<Rightarrow> string option) \<Rightarrow> ImageCache \<Rightarrow> Message \<Rightarrow> string \<Rightarrow> MessageContentPart list \<times> ImageCache" where
  "userContentParts download imageCache message username =
     (let replyInfo = convertMessageReferenceToText message;
          (attachmentParts, imageCache') = convertAttachments download imageCache (attachments message);
          pollText = (case poll message of None \<Rightarrow> [] | Some p \<Rightarrow> convertPollToText p);
          reactionsText = convertReactionsToText message
      in ([Text (username @ '':'')] @
          (if replyInfo \<noteq> [] then [Text replyInfo] else []) @
          (if msg_content message \<noteq> [] then [Text (msg_content message)] else []) @
          attachmentParts @
          map (\<lambda>emb. Text (convertEmbedToText emb)) (embeds message) @
          map (\<lambda>sticker. Text (convertStickerToText sticker)) (stickers message) @
          (if pollText \<noteq> [] then [Text pollText] else []) @
          (if reactionsText \<noteq> [] then [Text reactionsText] else []) @
          [Text (''[Sent: '' @ createdAtLocale message @ '']'')],
          imageCache'))"

text \<open>
  The parts of a bot message (its text, its attachments, its embeds), and the text of
  the assistant turn made from them: nothing when there is no part, the text of a
  single text part, and otherwise the parts joined by spaces, an image standing as a
  placeholder.
\<close>

definition botContentParts ::
  "(string \<Rightarrow> string option) \<Rightarrow> ImageCache \<Rightarrow> Message \<Rightarrow> MessageContentPart list \<times> ImageCache" where
  "botContentParts download imageCache message =
     (let (botAttachmentParts, imageCache') =
            convertBotAttachments download imageCache (attachments message)
      in ((if msg_content message \<noteq> [] then [Text (msg_content message)] else []) @
          botAttachmentParts @
          map (\<lambda>emb. Text (''[Bot embed: '' @
                  or_else (emb_title emb) (or_else (emb_description emb) ''Embedded content'') @
                  '']''))
              (embeds message),
          imageCache'))"

definition partText :: "MessageContentPart \<Rightarrow> string" where
  "partText part =
     (case part of
        Text t \<Rightarrow> t
      | ImageUrl u d \<Rightarrow> ''[Image: '' @ take 50 u @ ''...]''
      | _ \<Rightarrow> ''[Non-text content]'')"

definition collapseContent :: "MessageContentPart list \<Rightarrow> string option" where
  "collapseContent contentParts =
     (case contentParts of
        [] \<Rightarrow> None
      | [Text t] \<Rightarrow> Some t
      | _ \<Rightarrow> Some (join '' '' (map partText contentParts)))"

definition assistantContent ::
  "(string \<Rightarrow> string option) \<Rightarrow> ImageCache \<Rightarrow> Message \<Rightarrow> string option \<times> ImageCache" where
  "assistantContent download imageCache message =
     (let (contentParts, imageCache') = botContentParts download imageCache message
      in (collapseContent contentParts, imageCache'))"

text \<open>
  The tool messages of a stored entry: index \<open>i\<close> yields a message when both
  \<^verbatim>\<open>toolResults[i]\<close> and \<^verbatim>\<open>toolCalls[i]\<close> exist; it carries the result's content and the
  call's id.
\<close>

fun toolMessages :: "ToolResult list \<Rightarrow> ToolCall list \<Rightarrow> AIMessage list" where
  "toolMessages [] tcs = []"
| "toolMessages (toolResult # trs) [] = toolMessages trs []"
| "toolMessages (toolResult # trs) (toolCall # tcs) =
     \<lparr> role = Tool, content = Str (tr_content toolResult), name = None,
       tool_calls = None, tool_call_id = Some (tc_id toolCall) \<rparr> # toolMessages trs tcs"

definition cleanName :: "string \<Rightarrow> string" where
  "cleanName username =
     take 64 (map (\<lambda>c. if c \<in> set (''abcdefghijklmnopqrstuvwxyz'' @
                                      ''ABCDEFGHIJKLMNOPQRSTUVWXYZ'' @ ''0123456789_-'')
                         then c else CHR ''_'') username)"

text \<open>
  One turn of the loop over the fetched messages: \<open>aiMessages\<close> is the sequence built so
  far. A bot message with no text, attachment, emb or sticker is skipped, and so is one
  whose text comes out empty. After pushing an assistant message the ledger is asked for
  the message's entry; when it has tool calls the assistant message is popped, the
  tool-request message and the tool messages are pushed, and the assistant message is
  pushed back.
\<close>

definition convertMessage ::
  "(string \<Rightarrow> string option) \<Rightarrow> ToolCallsStore \<Rightarrow> AIMessage list \<times> ImageCache \<Rightarrow> Message \<Rightarrow>
   AIMessage list \<times> ImageCache" where
  "convertMessage download toolCallsStore st message =
     (let (aiMessages, imageCache) = st;
          isBot = author_bot message
      in
        if isBot \<and> msg_content message = [] \<and> attachments message = [] \<and>
           embeds message = [] \<and> stickers message = []
        then (aiMessages, imageCache)
        else if \<not> isBot then
          (let username = or_else (member_displayName message)
                            (or_else (author_displayName message) (author_username message));
               (contentParts, imageCache') = userContentParts download imageCache message username;
               userMessage =
                 \<lparr> role = User,
                   content = (if length contentParts > 0 then Parts contentParts else Str ''No content''),
                   name = Some (cleanName username), tool_calls = None, tool_call_id = None \<rparr>
           in (aiMessages @ [userMessage], imageCache'))
        else
          (let (content, imageCache') = assistantContent download imageCache message
           in if \<not> truthy content then (aiMessages, imageCache')
              else
                (let assistantMessage =
                       \<lparr> role = Assistant, content = Str (the content), name = None,
                         tool_calls = None, tool_call_id = None \<rparr>;
                     aiMessages1 = aiMessages @ [assistantMessage]
                 in case getToolCallsForMessage toolCallsStore message of
                      None \<Rightarrow> (aiMessages1, imageCache')
                    | Some toolCallData \<Rightarrow>
                        if length (toolCalls toolCallData) > 0 then
                          (let botMessage = last aiMessages1;
                               popped = butlast aiMessages1;
                               toolCallMessage =
                                 \<lparr> role = Assistant, content = Null, name = None,
                                   tool_calls = Some (toolCalls toolCallData),
                                   tool_call_id = None \<rparr>
                           in (popped @ [toolCallMessage] @
                               toolMessages (toolResults toolCallData) (toolCalls toolCallData) @
                               [botMessage],
                               imageCache'))
                        else (aiMessages1, imageCache'))))"

definition convertToAIMessages ::
  "(string \<Rightarrow> string option) \<Rightarrow> ToolCallsStore \<Rightarrow> ImageCache \<Rightarrow> Message list \<Rightarrow> string \<Rightarrow>
   AIMessage list \<times> ImageCache" where
  "convertToAIMessages download toolCallsStore imageCache messages query =
     (let (aiMessages, imageCache') =
            foldl (convertMessage download toolCallsStore) ([], imageCache) messages
      in (if trim query \<noteq> []
          then aiMessages @ [\<lparr> role = User, content = Str (trim query), name = None,
                                tool_calls = None, tool_call_id = None \<rparr>]
          else aiMessages,
          imageCache'))"

text \<open>
  Every value the image cache holds was written by \<^const>\<open>convertImageToBase64\<close>: a data
  URL tagged with the MIME type read off its key. The empty cache is such a cache and
  conversions keep it so.
\<close>

definition cacheOk :: "ImageCache \<Rightarrow> bool" where
  "cacheOk imageCache =
     list_all (\<lambda>(url, v). startsWith v (''data:'' @ mimeType url @ '';base64,'')) imageCache"

section \<open>Properties of the assembler\<close>

subsection \<open>Attachments\<close>

lemma startsWith_append [simp]: "startsWith (p @ s) p"
  by (induction p) simp_all

lemma startsWith_iff: "startsWith s p \<longleftrightarrow> (\<exists>r. s = p @ r)"
  by (induction s p rule: startsWith.induct) auto


lemma cacheOk_delete: "cacheOk c \<Longrightarrow> cacheOk (AList.delete k c)"
  by (auto simp: cacheOk_def list_all_iff AList.delete_eq)

lemma cacheOk_update:
  "cacheOk c \<Longrightarrow> startsWith v (''data:'' @ mimeType url @ '';base64,'') \<Longrightarrow>
   cacheOk (AList.update url v c)"
  by (induction c) (auto simp: cacheOk_def)

lemma cacheOk_convertImageToBase64:
  assumes "cacheOk c"
  shows "cacheOk (snd (convertImageToBase64 d c url))"
proof -
  have e: "cacheOk (if length c \<ge> 100 then
                       (case c of
                          [] \<Rightarrow> c
                        | (firstKey, v) # rest \<Rightarrow>
                            if firstKey \<noteq> [] then AList.delete firstKey c
                            else c)
                     else c)"
    using cacheOk_delete [OF assms] assms
    by (auto split: list.splits simp del: AList.delete_simps)
  show ?thesis
    unfolding convertImageToBase64_def Let_def
    using assms e
    by (auto split: option.splits intro!: cacheOk_update simp: startsWith_iff
             simp del: AList.delete_simps)
qed










subsection \<open>The text of an assistant turn\<close>









subsection \<open>The assembled sequence\<close>




lemma toolMessages_Nil [simp]: "toolMessages rs [] = []"
  by (induction rs) simp_all







section \<open>The chat-completion service\<close>

text \<open>
  A thrown JavaScript value: an \<^verbatim>\<open>Error\<close> with its message, or anything else.
\<close>

datatype Thrown = Error string | NonError

text \<open>
  What the SDK call \<^verbatim>\<open>chat.completions.create\<close> is given and what it answers. A failure
  carries the fields the service reads from it: \<^verbatim>\<open>status\<close>, \<^verbatim>\<open>message\<close>, the text of
  \<^verbatim>\<open>toString()\<close> and \<^verbatim>\<open>error.metadata.remaining_credits\<close> as rendered in a template.
  A success is the message of the first choice, or nothing when there is no choice.
\<close>

record ToolDefinition =
  td_name :: string
  td_description :: string
  td_parameters :: string

record ChatRequest =
  req_model :: string
  req_messages :: "AIMessage list"
  req_tools :: "ToolDefinition list option"
  req_max_tokens :: nat

record ApiError =
  err_status :: "nat option"
  err_message :: "string option"
  err_toString :: "string option"
  err_remaining_credits :: "string option"

record CompletionMessage =
  cm_content :: "string option"
  cm_tool_calls :: "ToolCall list option"

type_synonym ChatClient = "ChatRequest \<Rightarrow> ApiError + CompletionMessage option"

record AIService =
  client :: ChatClient
  modelName :: string
  systemPrompt :: string
  tools :: "ToolDefinition list"
  maxTokens :: nat

record AIResponse =
  resp_message :: CompletionMessage
  resp_tool_calls :: "ToolCall list option"

text \<open>The constructor: \<^verbatim>\<open>maxTokens || 8192\<close>, and the given tool definitions.\<close>

definition newAIService ::
  "ChatClient \<Rightarrow> string \<Rightarrow> string \<Rightarrow> nat option \<Rightarrow> ToolDefinition list \<Rightarrow> AIService" where
  "newAIService c model prompt maxTok defs =
     \<lparr> client = c, modelName = model, systemPrompt = prompt, tools = defs,
       maxTokens = (case maxTok of None \<Rightarrow> 8192 | Some n \<Rightarrow> if n = 0 then 8192 else n) \<rparr>"

text \<open>
  \<^verbatim>\<open>generateResponse\<close> puts the system prompt first unless the messages start with a
  system message, and sends the request. Its \<^verbatim>\<open>catch\<close> throws every failure again as an
  \<^verbatim>\<open>Error\<close> whose message names its category; a response without a choice is such a
  failure.
\<close>

definition categorize :: "nat \<Rightarrow> ApiError \<Rightarrow> string" where
  "categorize maxTok error =
     (if err_status error = Some 402 then
        ''AI service credit limit exceeded: '' @
        ''Insufficient credits. You requested up to '' @ show_nat maxTok @
        '' tokens but can only afford '' @ or_else (err_remaining_credits error) ''unknown'' @
        '' tokens. Please add more credits at https://openrouter.ai/settings/credits''
      else if err_status error = Some 429 then
        ''AI service rate limit exceeded. Please try again later.''
      else if err_status error = Some 401 then
        ''AI service authentication failed. Please check your API key.''
      else if (case err_status error of None \<Rightarrow> False | Some s \<Rightarrow> s \<ge> 500) then
        ''AI service is temporarily unavailable. Please try again later.''
      else
        ''AI service error: '' @
        or_else (err_message error) (or_else (err_toString error) ''Unknown error''))"

definition chatRequest :: "AIService \<Rightarrow> AIMessage list \<Rightarrow> ChatRequest" where
  "chatRequest ai msgs =
     (let systemMessage = \<lparr> role = System, content = Str (systemPrompt ai), name = None,
                              tool_calls = None, tool_call_id = None \<rparr>;
          allMessages =
            (case msgs of
               [] \<Rightarrow> [systemMessage]
             | m # rest \<Rightarrow> if role m = System then msgs else systemMessage # msgs)
      in \<lparr> req_model = modelName ai, req_messages = allMessages,
           req_tools = (if length (tools ai) > 0 then Some (tools ai) else None),
           req_max_tokens = maxTokens ai \<rparr>)"

definition generateResponse :: "AIService \<Rightarrow> AIMessage list \<Rightarrow> Thrown + AIResponse" where
  "generateResponse ai msgs =
     (case client ai (chatRequest ai msgs) of
        Inl error \<Rightarrow> Inl (Error (categorize (maxTokens ai) error))
      | Inr None \<Rightarrow>
          Inl (Error (categorize (maxTokens ai)
                \<lparr> err_status = None, err_message = Some ''No completion received from AI'',
                  err_toString = None, err_remaining_credits = None \<rparr>))
      | Inr (Some message) \<Rightarrow>
          Inr \<lparr> resp_message = message, resp_tool_calls = cm_tool_calls message \<rparr>)"

section \<open>Tools and registries\<close>

text \<open>
  A tool's \<^verbatim>\<open>execute\<close> takes the parsed arguments (type \<open>'j\<close>, a JSON value) and answers
  with the text handed back to the model (its result, put through \<^verbatim>\<open>JSON.stringify\<close>
  when it is not a string), or throws. A registry is a \<^verbatim>\<open>Map\<close> from name to tool.
\<close>

record 'j Tool =
  tool_name :: string
  tool_description :: string
  tool_parameters :: string
  tool_execute :: "'j \<Rightarrow> Thrown + string"

type_synonym 'j Registry = "(string \<times> 'j Tool) list"

definition registerTool :: "'j Registry \<Rightarrow> 'j Tool \<Rightarrow> 'j Registry" where
  "registerTool reg tool = AList.update (tool_name tool) tool reg"

definition getToolDefinitions :: "'j Registry \<Rightarrow> ToolDefinition list" where
  "getToolDefinitions reg =
     map (\<lambda>(k, tool). \<lparr> td_name = tool_name tool, td_description = tool_description tool,
                          td_parameters = tool_parameters tool \<rparr>) reg"

definition getToolNames :: "'j Registry \<Rightarrow> string list" where
  "getToolNames reg = map fst reg"

definition getToolCount :: "'j Registry \<Rightarrow> nat" where
  "getToolCount reg = length reg"

text \<open>
  The six tools of the OpenProject agent. Their names are the source's; what they
  describe and do (calls to the project-management REST API) is given by \<open>impl\<close>.
\<close>

record 'j ToolImpl =
  impl_description :: string
  impl_parameters :: string
  impl_execute :: "'j \<Rightarrow> Thrown + string"

definition mkTool :: "string \<Rightarrow> 'j ToolImpl \<Rightarrow> 'j Tool" where
  "mkTool n impl =
     \<lparr> tool_name = n, tool_description = impl_description impl,
       tool_parameters = impl_parameters impl, tool_execute = impl_execute impl \<rparr>"

record 'j OpenProjectImpls =
  listProjects :: "'j ToolImpl"
  createWorkPackage :: "'j ToolImpl"
  listWorkPackages :: "'j ToolImpl"
  assignUser :: "'j ToolImpl"
  searchUsers :: "'j ToolImpl"
  getMetadata :: "'j ToolImpl"

definition listProjectsTool :: "'j OpenProjectImpls \<Rightarrow> 'j Tool" where
  "listProjectsTool impls = mkTool ''list_projects'' (listProjects impls)"

definition createWorkPackageTool :: "'j OpenProjectImpls \<Rightarrow> 'j Tool" where
  "createWorkPackageTool impls = mkTool ''create_work_package'' (createWorkPackage impls)"

definition listWorkPackagesTool :: "'j OpenProjectImpls \<Rightarrow> 'j Tool" where
  "listWorkPackagesTool impls = mkTool ''list_work_packages'' (listWorkPackages impls)"

definition assignUserTool :: "'j OpenProjectImpls \<Rightarrow> 'j Tool" where
  "assignUserTool impls = mkTool ''assign_user'' (assignUser impls)"

definition searchUsersTool :: "'j OpenProjectImpls \<Rightarrow> 'j Tool" where
  "searchUsersTool impls = mkTool ''search_users'' (searchUsers impls)"

definition getMetadataTool :: "'j OpenProjectImpls \<Rightarrow> 'j Tool" where
  "getMetadataTool impls = mkTool ''get_metadata'' (getMetadata impls)"

text \<open>The constructor of \<^verbatim>\<open>OpenProjectToolsRegistry\<close> registers the six tools.\<close>

definition OpenProjectToolsRegistry :: "'j OpenProjectImpls \<Rightarrow> 'j Registry" where
  "OpenProjectToolsRegistry impls =
     registerTool (registerTool (registerTool (registerTool (registerTool (registerTool []
       (listProjectsTool impls)) (createWorkPackageTool impls)) (listWorkPackagesTool impls))
       (assignUserTool impls)) (searchUsersTool impls)) (getMetadataTool impls)"

definition openProject_executeTool :: "'j Registry \<Rightarrow> string \<Rightarrow> 'j \<Rightarrow> Thrown + string" where
  "openProject_executeTool reg n args =
     (case map_of reg n of
        None \<Rightarrow> Inl (Error (''OpenProject tool not found: '' @ n))
      | Some tool \<Rightarrow> tool_execute tool args)"

section \<open>The OpenProject agent\<close>

text \<open>
  What the agent is given from outside: \<^verbatim>\<open>JSON.parse\<close> (\<open>Inl\<close> is the message of the
  \<^verbatim>\<open>SyntaxError\<close> it throws), the remote chat endpoint, the configured model name, the
  tool implementations, and the text of the agent's system prompt for a task, a
  context and a budget.
\<close>

record 'j AgentEnv =
  jsonParse :: "string \<Rightarrow> string + 'j"
  chat :: ChatClient
  configModelName :: string
  impls :: "'j OpenProjectImpls"
  openProjectSystemPrompt :: "string \<Rightarrow> string option \<Rightarrow> nat \<Rightarrow> string"

record OpenProjectAgentOptions =
  task :: string
  opt_context :: "string option"
  max_iterations :: "nat option"

record LoopState =
  iterationCount :: nat
  finalResponse :: string
  foundUserIdButNeedsList :: bool
  messages :: "AIMessage list"

definition summaryPrompt :: string where
  "summaryPrompt =
     ''Please provide a comprehensive final summary of your OpenProject management results. '' @
     ''Include ALL the detailed information you found - work package IDs, titles, statuses, '' @
     ''users, dates, links, etc. Do not just say the task was completed, show the actual '' @
     ''data and results you discovered.''"

definition summaryMessage :: AIMessage where
  "summaryMessage = \<lparr> role = User, content = Str summaryPrompt, name = None,
                       tool_calls = None, tool_call_id = None \<rparr>"

text \<open>
  One requested invocation: the arguments are parsed and the tool is run inside a
  \<^verbatim>\<open>try\<close>; whatever is thrown becomes an error text under the invocation's id.
\<close>

definition thrownMessage :: "Thrown \<Rightarrow> string" where
  "thrownMessage error = (case error of Error m \<Rightarrow> m | NonError \<Rightarrow> ''Unknown error'')"

definition agentToolResult :: "'j AgentEnv \<Rightarrow> 'j Registry \<Rightarrow> ToolCall \<Rightarrow> ToolResult" where
  "agentToolResult env openProjectRegistry toolCall =
     (let n = fn_name toolCall;
          argsString = fn_arguments toolCall;
          outcome =
            (case jsonParse env argsString of
               Inl syntaxError \<Rightarrow> Inl (Error syntaxError)
             | Inr toolArgs \<Rightarrow> openProject_executeTool openProjectRegistry n toolArgs)
      in case outcome of
           Inr resultString \<Rightarrow>
             \<lparr> tr_tool_call_id = tc_id toolCall, tr_name = None, tr_content = resultString \<rparr>
         | Inl error \<Rightarrow>
             \<lparr> tr_tool_call_id = tc_id toolCall, tr_name = None,
               tr_content = ''Error: Failed to execute '' @ n @ '': '' @ thrownMessage error \<rparr>)"

fun agentToolResults :: "'j AgentEnv \<Rightarrow> 'j Registry \<Rightarrow> ToolCall list \<Rightarrow> ToolResult list" where
  "agentToolResults env openProjectRegistry [] = []"
| "agentToolResults env openProjectRegistry (toolCall # rest) =
     (if tc_type toolCall \<noteq> ''function'' then agentToolResults env openProjectRegistry rest
      else agentToolResult env openProjectRegistry toolCall #
           agentToolResults env openProjectRegistry rest)"

text \<open>
  The check after the tool calls: a \<^verbatim>\<open>search_users\<close> call whose result shows a user id,
  in a task that speaks of listing, issues or work packages.
\<close>

definition foundUserId :: "string \<Rightarrow> ToolCall list \<Rightarrow> ToolResult list \<Rightarrow> bool" where
  "foundUserId t tcs results =
     list_ex (\<lambda>toolCall.
        fn_name toolCall = ''search_users'' \<and>
        (case find (\<lambda>r. tr_tool_call_id r = tc_id toolCall) results of
           None \<Rightarrow> False
         | Some toolResult \<Rightarrow> str_includes (tr_content toolResult) ''User ID:'') \<and>
        (str_includes (toLowerCase t) ''list'' \<or> str_includes (toLowerCase t) ''issue'' \<or>
         str_includes (toLowerCase t) ''work package'')) tcs"

definition toolResultMessage :: "ToolResult \<Rightarrow> AIMessage" where
  "toolResultMessage r =
     \<lparr> role = Tool, content = Str (tr_content r), name = None, tool_calls = None,
       tool_call_id = Some (tr_tool_call_id r) \<rparr>"

text \<open>
  The branch of the loop body taken when the response requests tools; \<open>st\<close> is the
  state after \<^verbatim>\<open>iterationCount++\<close>.
\<close>

definition toolStep ::
  "'j AgentEnv \<Rightarrow> 'j Registry \<Rightarrow> nat \<Rightarrow> string \<Rightarrow> LoopState \<Rightarrow> AIResponse \<Rightarrow> LoopState" where
  "toolStep env openProjectRegistry maxIter t st response =
     (let tcs = (case resp_tool_calls response of None \<Rightarrow> [] | Some cs \<Rightarrow> cs);
          assistantMessage =
            \<lparr> role = Assistant,
              content = (case cm_content (resp_message response) of
                           None \<Rightarrow> Null | Some s \<Rightarrow> Str s),
              name = None, tool_calls = resp_tool_calls response, tool_call_id = None \<rparr>;
          results = agentToolResults env openProjectRegistry tcs;
          found = (foundUserIdButNeedsList st \<or> foundUserId t tcs results);
          pushed = messages st @ [assistantMessage] @ map toolResultMessage results
      in st \<lparr> foundUserIdButNeedsList := found,
              messages :=
                (if iterationCount st = maxIter \<and> \<not> found then pushed @ [summaryMessage]
                 else if iterationCount st = maxIter + 2 then pushed @ [summaryMessage]
                 else pushed) \<rparr>)"

definition wantsTools :: "AIResponse \<Rightarrow> bool" where
  "wantsTools response =
     (case resp_tool_calls response of None \<Rightarrow> False | Some cs \<Rightarrow> length cs > 0)"

definition loopCondition :: "nat \<Rightarrow> LoopState \<Rightarrow> bool" where
  "loopCondition maxIter st =
     (iterationCount st < maxIter \<or>
      (foundUserIdButNeedsList st \<and> iterationCount st < maxIter + 2))"

lemma iterationCount_toolStep [simp]:
  "iterationCount (toolStep env reg maxIter t st response) = iterationCount st"
  by (simp add: toolStep_def Let_def)

text \<open>
  The \<^verbatim>\<open>while\<close> loop. A failing request leaves the loop with the thrown error; a response
  without tool calls sets \<^verbatim>\<open>finalResponse\<close> and breaks.
\<close>

function agentLoop ::
  "'j AgentEnv \<Rightarrow> AIService \<Rightarrow> 'j Registry \<Rightarrow> nat \<Rightarrow> string \<Rightarrow> LoopState \<Rightarrow> Thrown + LoopState" where
  "agentLoop env openProjectAI openProjectRegistry maxIter t st =
     (if loopCondition maxIter st then
        (let st1 = st \<lparr> iterationCount := iterationCount st + 1 \<rparr>
         in case generateResponse openProjectAI (messages st1) of
              Inl error \<Rightarrow> Inl error
            | Inr response \<Rightarrow>
                if wantsTools response then
                  agentLoop env openProjectAI openProjectRegistry maxIter t
                    (toolStep env openProjectRegistry maxIter t st1 response)
                else
                  Inr (st1 \<lparr> finalResponse :=
                         (case cm_content (resp_message response) of
                            Some s \<Rightarrow> s
                          | None \<Rightarrow> ''OpenProject task completed with no specific results.'') \<rparr>))
      else Inr st)"
  by pat_completeness auto
termination
  by (relation "measure (\<lambda>(env, ai, reg, maxIter, t, st). maxIter + 2 - iterationCount st)")
     (auto simp: loopCondition_def)

declare agentLoop.simps [simp del]

text \<open>
  The loop, then the request made after it when no final response was set and the
  budget is used up. The outcome is the final response and the iteration count.
\<close>

definition agentRun ::
  "'j AgentEnv \<Rightarrow> AIService \<Rightarrow> 'j Registry \<Rightarrow> nat \<Rightarrow> string \<Rightarrow> LoopState \<Rightarrow> Thrown + string \<times> nat" where
  "agentRun env openProjectAI openProjectRegistry maxIter t st0 =
     (case agentLoop env openProjectAI openProjectRegistry maxIter t st0 of
        Inl error \<Rightarrow> Inl error
      | Inr st \<Rightarrow>
          if finalResponse st = [] \<and> iterationCount st \<ge> maxIter then
            (case generateResponse openProjectAI (messages st) of
               Inl error \<Rightarrow> Inl error
             | Inr finalResponseResult \<Rightarrow>
                 Inr (case cm_content (resp_message finalResponseResult) of
                        Some s \<Rightarrow> s
                      | None \<Rightarrow> ''OpenProject task completed after maximum iterations.'',
                      iterationCount st))
          else Inr (finalResponse st, iterationCount st))"

text \<open>
  \<^verbatim>\<open>openProjectAgentTool.execute\<close>: a fresh registry, a fresh service bound to the
  registry's tool definitions, the loop, and the result text. Whatever is thrown inside
  becomes the text of an error report.
\<close>

definition initialState :: "OpenProjectAgentOptions \<Rightarrow> LoopState" where
  "initialState options =
     \<lparr> iterationCount = 0, finalResponse = [], foundUserIdButNeedsList = False,
       messages =
         [\<lparr> role = User,
            content = Str (''Please help me with this OpenProject task: '' @ task options @
                           (if truthy (opt_context options)
                            then [CHR 0x0A, CHR 0x0A] @ ''Context: '' @ the (opt_context options)
                            else [])),
            name = None, tool_calls = None, tool_call_id = None \<rparr>] \<rparr>"

definition agentService :: "'j AgentEnv \<Rightarrow> OpenProjectAgentOptions \<Rightarrow> AIService" where
  "agentService env options =
     newAIService (chat env) (configModelName env)
       (openProjectSystemPrompt env (task options) (opt_context options)
          (case max_iterations options of None \<Rightarrow> 5 | Some n \<Rightarrow> n))
       None
       (getToolDefinitions (OpenProjectToolsRegistry (impls env)))"

definition openProjectAgent_execute :: "'j AgentEnv \<Rightarrow> OpenProjectAgentOptions \<Rightarrow> string" where
  "openProjectAgent_execute env options =
     (let maxIter = (case max_iterations options of None \<Rightarrow> 5 | Some n \<Rightarrow> n);
          openProjectRegistry = OpenProjectToolsRegistry (impls env);
          openProjectAI = agentService env options
      in case agentRun env openProjectAI openProjectRegistry maxIter (task options)
                (initialState options) of
           Inr (final, iterations) \<Rightarrow>
             ''**OpenProject Agent Results**'' @ [CHR 0x0A, CHR 0x0A] @ final @
             [CHR 0x0A, CHR 0x0A] @ ''---'' @ [CHR 0x0A] @ ''*Task completed using '' @
             show_nat (getToolCount openProjectRegistry) @
             '' specialized OpenProject tools in '' @ show_nat iterations @ '' iterations*''
         | Inl error \<Rightarrow>
             ''OpenProject Agent encountered an error: '' @ thrownMessage error)"

section \<open>The message pipeline\<close>

text \<open>
  What the bot is given from outside, beyond the agent's environment: the clock-reading
  date tool, the reading of parsed arguments as agent options (nothing when the
  arguments are \<^verbatim>\<open>null\<close>, where the destructuring throws), the image download, the system
  prompt made for a message, and the delivery of a reply: \<open>deliver\<close> is the platform's
  answer to \<^verbatim>\<open>sendSplitMessage\<close> (or \<^verbatim>\<open>message.reply\<close>) for a text: the first message
  sent, if any, or a thrown error.
\<close>

record 'j BotEnv =
  agentEnv :: "'j AgentEnv"
  dateTime_execute :: "'j \<Rightarrow> Thrown + string"
  asAgentOptions :: "'j \<Rightarrow> OpenProjectAgentOptions option"
  download :: "string \<Rightarrow> string option"
  generateSystemPrompt :: "Message \<Rightarrow> string"
  deliver :: "string \<Rightarrow> Thrown + Message option"

definition dateTimeTool :: "'j BotEnv \<Rightarrow> 'j Tool" where
  "dateTimeTool env =
     \<lparr> tool_name = ''get_date_time'',
       tool_description =
         ''Get the current date and time, optionally in a specific format and timezone'',
       tool_parameters = ''{format, timezone}'',
       tool_execute = dateTime_execute env \<rparr>"

definition openProjectAgentTool :: "'j BotEnv \<Rightarrow> 'j Tool" where
  "openProjectAgentTool env =
     \<lparr> tool_name = ''openproject_agent'',
       tool_description = ''A specialized AI agent for ALL OpenProject management tasks'',
       tool_parameters = ''{task, context, max_iterations}'',
       tool_execute =
         (\<lambda>args. case asAgentOptions env args of
                    None \<Rightarrow> Inl (Error ''Cannot destructure property of null'')
                  | Some options \<Rightarrow> Inr (openProjectAgent_execute (agentEnv env) options)) \<rparr>"

definition toolsRegistry :: "'j BotEnv \<Rightarrow> 'j Registry" where
  "toolsRegistry env = registerTool (registerTool [] (dateTimeTool env)) (openProjectAgentTool env)"

definition executeTool :: "'j Registry \<Rightarrow> string \<Rightarrow> 'j \<Rightarrow> Thrown + string" where
  "executeTool reg n args =
     (case map_of reg n of
        None \<Rightarrow> Inl (Error (''Tool not found: '' @ n))
      | Some tool \<Rightarrow> tool_execute tool args)"

text \<open>\<^verbatim>\<open>AIService.processToolCalls\<close>, which always runs the outer registry's tools.\<close>

definition processToolCall :: "'j BotEnv \<Rightarrow> ToolCall \<Rightarrow> ToolResult" where
  "processToolCall env call =
     (let n = fn_name call;
          argsString = fn_arguments call;
          outcome =
            (case jsonParse (agentEnv env) argsString of
               Inl syntaxError \<Rightarrow> Inl (Error syntaxError)
             | Inr args \<Rightarrow> executeTool (toolsRegistry env) n args)
      in case outcome of
           Inr resultString \<Rightarrow>
             \<lparr> tr_tool_call_id = tc_id call, tr_name = Some n, tr_content = resultString \<rparr>
         | Inl error \<Rightarrow>
             \<lparr> tr_tool_call_id = tc_id call, tr_name = Some n,
               tr_content = ''Error: Failed to execute tool '' @ n \<rparr>)"

fun processCalls :: "'j BotEnv \<Rightarrow> ToolCall list \<Rightarrow> ToolResult list" where
  "processCalls env [] = []"
| "processCalls env (call # rest) =
     (if tc_type call \<noteq> ''function'' then processCalls env rest
      else processToolCall env call # processCalls env rest)"

definition processToolCalls :: "'j BotEnv \<Rightarrow> ToolCall list option \<Rightarrow> ToolResult list" where
  "processToolCalls env tcs = (case tcs of None \<Rightarrow> [] | Some cs \<Rightarrow> processCalls env cs)"

definition createToolResultMessages :: "ToolResult list \<Rightarrow> AIMessage list" where
  "createToolResultMessages results = map toolResultMessage results"

text \<open>
  \<^verbatim>\<open>extractQueryFromMention\<close> deletes every \<^verbatim>\<open><@id>\<close> and \<^verbatim>\<open><@!id>\<close> (the client id is a
  string of digits) and trims the rest.
\<close>

function removeMentions :: "string \<Rightarrow> string \<Rightarrow> string" where
  "removeMentions clientId s =
     (if s = [] then []
      else if startsWith s (''<@!'' @ clientId @ ''>'')
        then removeMentions clientId (drop (length clientId + 4) s)
      else if startsWith s (''<@'' @ clientId @ ''>'')
        then removeMentions clientId (drop (length clientId + 3) s)
      else hd s # removeMentions clientId (tl s))"
  by pat_completeness auto
termination
  by (relation "measure (\<lambda>(clientId, s). length s)") auto

declare removeMentions.simps [simp del]

definition extractQueryFromMention :: "string \<Rightarrow> string \<Rightarrow> string" where
  "extractQueryFromMention c clientId = trim (removeMentions clientId c)"

text \<open>What \<^verbatim>\<open>processUserMessage\<close> returns: a text, or a text with the tool calls made.\<close>

datatype Response = Plain string | WithTools string "ToolCall list" "ToolResult list"

definition responseMessage :: "AIResponse \<Rightarrow> AIMessage" where
  "responseMessage response =
     \<lparr> role = Assistant,
       content = (case cm_content (resp_message response) of None \<Rightarrow> Null | Some s \<Rightarrow> Str s),
       name = None, tool_calls = cm_tool_calls (resp_message response), tool_call_id = None \<rparr>"

definition handleToolCalls ::
  "'j BotEnv \<Rightarrow> AIService \<Rightarrow> AIMessage list \<Rightarrow> AIResponse \<Rightarrow> Thrown + Response" where
  "handleToolCalls env aiService aiMessages response =
     (let results = processToolCalls env (resp_tool_calls response);
          toolMsgs = createToolResultMessages results
      in case generateResponse aiService (aiMessages @ [responseMessage response] @ toolMsgs) of
           Inl error \<Rightarrow> Inl error
         | Inr followUpResponse \<Rightarrow>
             Inr (WithTools
                    (or_else (cm_content (resp_message followUpResponse))
                       ''I processed your request but have no response.'')
                    (case resp_tool_calls response of None \<Rightarrow> [] | Some cs \<Rightarrow> cs)
                    results))"

definition outerService :: "'j BotEnv \<Rightarrow> Message \<Rightarrow> AIService" where
  "outerService env message =
     newAIService (chat (agentEnv env)) (configModelName (agentEnv env))
       (generateSystemPrompt env message) None (getToolDefinitions (toolsRegistry env))"

text \<open>
  \<^verbatim>\<open>processUserMessage\<close>: fetch the window, evict, assemble, ask the model, and run the
  tools it asks for. The ledger and the image cache are returned as they stand
  afterwards, also when the request fails.
\<close>

definition processUserMessage ::
  "'j BotEnv \<Rightarrow> ToolCallsStore \<times> ImageCache \<Rightarrow> Message \<Rightarrow> Channel \<Rightarrow> string \<Rightarrow>
   (Thrown + Response) \<times> ToolCallsStore \<times> ImageCache" where
  "processUserMessage env st message channel clientId =
     (let (toolCallsStore, imageCache) = st;
          aiService = outerService env message;
          recentMessages = fetchRecentMessages channel;
          toolCallsStore1 = cleanupOldToolCalls toolCallsStore recentMessages;
          query = extractQueryFromMention (msg_content message) clientId;
          (aiMessages, imageCache1) =
            convertToAIMessages (download env) toolCallsStore1 imageCache recentMessages query
      in (case generateResponse aiService aiMessages of
            Inl error \<Rightarrow> Inl error
          | Inr response \<Rightarrow>
              if wantsTools response then handleToolCalls env aiService aiMessages response
              else Inr (Plain (or_else (cm_content (resp_message response))
                                 ''I processed your request but have no response.'')),
          toolCallsStore1, imageCache1))"

text \<open>
  \<^verbatim>\<open>sendResponse\<close>: deliver the text; when a message was sent and the response carries
  tool calls, store them under the sent message.
\<close>

definition responseContent :: "Response \<Rightarrow> string" where
  "responseContent response = (case response of Plain s \<Rightarrow> s | WithTools c tcs trs \<Rightarrow> c)"

definition sendResponse ::
  "'j BotEnv \<Rightarrow> ToolCallsStore \<Rightarrow> Response \<Rightarrow> (Thrown + unit) \<times> ToolCallsStore" where
  "sendResponse env toolCallsStore response =
     (case deliver env (responseContent response) of
        Inl error \<Rightarrow> (Inl error, toolCallsStore)
      | Inr sentMessage \<Rightarrow>
          (Inr (),
           (case (sentMessage, response) of
              (Some sent, WithTools c tcs trs) \<Rightarrow>
                storeToolCallsForMessage toolCallsStore sent tcs trs
            | _ \<Rightarrow> toolCallsStore)))"

definition getErrorMessage :: "Thrown \<Rightarrow> string" where
  "getErrorMessage error =
     (let errorMessage = (case error of Error m \<Rightarrow> toLowerCase m | NonError \<Rightarrow> [])
      in if str_includes errorMessage ''credit limit exceeded'' then
           ''Sorry, I'' @ [CHR 0x27] @ ''m currently experiencing credit limitations. Please try again later.''
         else if str_includes errorMessage ''rate limit exceeded'' then
           ''Sorry, I'' @ [CHR 0x27] @ ''m being rate limited. Please wait a moment and try again.''
         else if str_includes errorMessage ''authentication failed'' then
           ''Sorry, there'' @ [CHR 0x27] @ ''s a configuration issue with my AI service. Please contact the administrator.''
         else if str_includes errorMessage ''temporarily unavailable'' then
           ''Sorry, the AI service is temporarily unavailable. Please try again later.''
         else ''Sorry, I encountered an error while processing your request.'')"

text \<open>
  An incoming event: the message, its channel when it is a text channel, the bot's own
  user id when known, and the answers of \<^verbatim>\<open>isBotMentioned\<close> and \<^verbatim>\<open>isUserAllowed\<close>.
  The outcome of handling it: the ledger and the cache afterwards, the texts handed to
  the delivery in order, and the error that escapes, if any.
\<close>

record Event =
  ev_message :: Message
  ev_channel :: "Channel option"
  ev_clientUserId :: "string option"
  ev_botMentioned :: bool
  ev_userAllowed :: bool

record Outcome =
  out_store :: ToolCallsStore
  out_cache :: ImageCache
  out_delivered :: "string list"
  out_escaped :: "Thrown option"

definition handleMessage :: "'j BotEnv \<Rightarrow> ToolCallsStore \<times> ImageCache \<Rightarrow> Event \<Rightarrow> Outcome" where
  "handleMessage env st event =
     (let message = ev_message event;
          unchanged = \<lparr> out_store = fst st, out_cache = snd st, out_delivered = [],
                        out_escaped = None \<rparr>
      in
        if author_bot message then unchanged
        else case ev_channel event of
          None \<Rightarrow> unchanged
        | Some channel \<Rightarrow>
            if \<not> truthy (ev_clientUserId event) then unchanged
            else if \<not> ev_botMentioned event then unchanged
            else if \<not> ev_userAllowed event then
              unchanged \<lparr> out_delivered := [''You do not have permission to use this bot.''],
                          out_escaped :=
                            (case deliver env ''You do not have permission to use this bot.'' of
                               Inl e \<Rightarrow> Some e | Inr m \<Rightarrow> None) \<rparr>
            else
              (case processUserMessage env st message channel (the (ev_clientUserId event)) of
                 (Inr response, toolCallsStore1, imageCache1) \<Rightarrow>
                   (case sendResponse env toolCallsStore1 response of
                      (Inr u, toolCallsStore2) \<Rightarrow>
                        \<lparr> out_store = toolCallsStore2, out_cache = imageCache1,
                          out_delivered = [responseContent response], out_escaped = None \<rparr>
                    | (Inl error, toolCallsStore2) \<Rightarrow>
                        \<lparr> out_store = toolCallsStore2, out_cache = imageCache1,
                          out_delivered = [responseContent response, getErrorMessage error],
                          out_escaped =
                            (case deliver env (getErrorMessage error) of
                               Inl e \<Rightarrow> Some e | Inr m \<Rightarrow> None) \<rparr>)
               | (Inl error, toolCallsStore1, imageCache1) \<Rightarrow>
                   \<lparr> out_store = toolCallsStore1, out_cache = imageCache1,
                     out_delivered = [getErrorMessage error],
                     out_escaped =
                       (case deliver env (getErrorMessage error) of
                          Inl e \<Rightarrow> Some e | Inr m \<Rightarrow> None) \<rparr>))"

section \<open>Properties of the OpenProject agent\<close>

subsection \<open>The loop\<close>

lemma finalResponse_toolStep [simp]:
  "finalResponse (toolStep env reg maxIter t st response) = finalResponse st"
  by (simp add: toolStep_def Let_def)

lemma agentLoop_exit:
  "\<not> loopCondition N st \<Longrightarrow> agentLoop env ai reg N t st = Inr st"
  by (simp add: agentLoop.simps)

lemma agentLoop_failure:
  "loopCondition N st \<Longrightarrow> generateResponse ai (messages st) = Inl e \<Longrightarrow>
   agentLoop env ai reg N t st = Inl e"
  by (simp add: agentLoop.simps)

lemma agentLoop_tools:
  "loopCondition N st \<Longrightarrow> generateResponse ai (messages st) = Inr r \<Longrightarrow> wantsTools r \<Longrightarrow>
   agentLoop env ai reg N t st =
     agentLoop env ai reg N t
       (toolStep env reg N t (st \<lparr> iterationCount := iterationCount st + 1 \<rparr>) r)"
  by (simp add: agentLoop.simps [of env ai reg N t st])

lemma agentLoop_text:
  "loopCondition N st \<Longrightarrow> generateResponse ai (messages st) = Inr r \<Longrightarrow> \<not> wantsTools r \<Longrightarrow>
   agentLoop env ai reg N t st =
     Inr (st \<lparr> iterationCount := iterationCount st + 1,
              finalResponse :=
                (case cm_content (resp_message r) of
                   Some s \<Rightarrow> s
                 | None \<Rightarrow> ''OpenProject task completed with no specific results.'') \<rparr>)"
  by (simp add: agentLoop.simps [of env ai reg N t st])

lemma agentLoop_bound:
  "agentLoop env ai reg N t st = Inr st' \<Longrightarrow> iterationCount st \<le> N + 2 \<Longrightarrow>
   iterationCount st' \<le> N + 2"
proof (induction env ai reg N t st rule: agentLoop.induct)
  case (1 env ai reg N t st)
  show ?case
  proof (cases "loopCondition N st")
    case False
    with "1.prems" show ?thesis by (simp add: agentLoop_exit)
  next
    case True
    let ?st1 = "st \<lparr> iterationCount := iterationCount st + 1 \<rparr>"
    from True have b: "iterationCount ?st1 \<le> N + 2"
      by (auto simp: loopCondition_def)
    show ?thesis
    proof (cases "generateResponse ai (messages st)")
      case (Inl e)
      with True "1.prems" show ?thesis by (simp add: agentLoop_failure)
    next
      case (Inr r)
      show ?thesis
      proof (cases "wantsTools r")
        case w: True
        have "agentLoop env ai reg N t (toolStep env reg N t ?st1 r) = Inr st'"
          using "1.prems"(1) agentLoop_tools [OF True Inr w, of env reg t] by simp
        moreover have "generateResponse ai (messages ?st1) = Inr r"
          using Inr by simp
        ultimately show ?thesis
          using "1.IH" [OF True refl _ w] b by simp
      next
        case w: False
        show ?thesis
          using "1.prems"(1) b unfolding agentLoop_text [OF True Inr w] by auto
      qed
    qed
  qed
qed

lemma agentLoop_always_tools:
  assumes "\<forall>msgs. \<exists>r. generateResponse ai msgs = Inr r \<and> wantsTools r"
  shows "\<exists>st'. agentLoop env ai reg N t st = Inr st' \<and> \<not> loopCondition N st' \<and>
               finalResponse st' = finalResponse st"
  using assms
proof (induction env ai reg N t st rule: agentLoop.induct)
  case (1 env ai reg N t st)
  note always = "1.prems"
  show ?case
  proof (cases "loopCondition N st")
    case False
    then show ?thesis by (simp add: agentLoop_exit)
  next
    case True
    let ?st1 = "st \<lparr> iterationCount := iterationCount st + 1 \<rparr>"
    obtain r where r: "generateResponse ai (messages st) = Inr r" "wantsTools r"
      using always by blast
    have r1: "generateResponse ai (messages ?st1) = Inr r"
      using r by simp
    from "1.IH" [OF True refl r1 r(2) always]
    obtain st' where "agentLoop env ai reg N t (toolStep env reg N t ?st1 r) = Inr st'"
      "\<not> loopCondition N st'" "finalResponse st' = finalResponse st"
      by auto
    then show ?thesis
      unfolding agentLoop_tools [OF True r, of env reg t] by blast
  qed
qed

lemma generateResponse_always_tools:
  assumes "\<forall>req. \<exists>m tcs. client ai req = Inr (Some m) \<and> cm_tool_calls m = Some tcs \<and> tcs \<noteq> []"
  shows "\<exists>r. generateResponse ai msgs = Inr r \<and> wantsTools r"
proof -
  obtain m tcs where m: "client ai (chatRequest ai msgs) = Inr (Some m)"
      "cm_tool_calls m = Some tcs" "tcs \<noteq> []"
    using assms by blast
  then have "generateResponse ai msgs = Inr \<lparr> resp_message = m, resp_tool_calls = cm_tool_calls m \<rparr>"
    by (simp add: generateResponse_def)
  with m show ?thesis by (simp add: wantsTools_def)
qed

lemma execute_nonempty: "openProjectAgent_execute env options \<noteq> []"
  by (simp add: openProjectAgent_execute_def Let_def split: sum.splits prod.splits)

lemma client_agentService [simp]: "client (agentService env options) = chat env"
  by (simp add: agentService_def newAIService_def)

subsection \<open>Example values\<close>

definition ex_impl :: "string \<Rightarrow> unit ToolImpl" where
  "ex_impl r = \<lparr> impl_description = ''d'', impl_parameters = ''{}'', impl_execute = (\<lambda>a. Inr r) \<rparr>"

definition ex_env :: "ChatClient \<Rightarrow> unit AgentEnv" where
  "ex_env c =
     \<lparr> jsonParse = (\<lambda>s. if s = ''{}'' then Inr () else Inl ''Unexpected end of JSON input''),
       chat = c, configModelName = ''m'',
       impls = \<lparr> listProjects = ex_impl ''none'', createWorkPackage = ex_impl ''created'',
                 listWorkPackages = ex_impl ''none'', assignUser = ex_impl ''assigned'',
                 searchUsers = ex_impl ''User ID: 8'', getMetadata = ex_impl ''meta'' \<rparr>,
       openProjectSystemPrompt = (\<lambda>t c n. ''You are an OpenProject Agent'') \<rparr>"

definition ex_always_search :: ChatClient where
  "ex_always_search =
     (\<lambda>req. Inr (Some \<lparr> cm_content = None,
                         cm_tool_calls = Some [ex_call ''c1'' ''search_users''] \<rparr>))"

definition ex_options :: "string \<Rightarrow> nat \<Rightarrow> OpenProjectAgentOptions" where
  "ex_options t n = \<lparr> task = t, opt_context = None, max_iterations = Some n \<rparr>"

subsection \<open>Claims about the iteration budget\<close>

text \<open>
  Claim C3. Let the chat client answer every request with at least one tool call. For
  every budget \<open>N\<close> (5 when none is given) the agent's loop ends, in a state whose
  iteration counter lies between \<open>N\<close> and \<open>N + 2\<close>, and the text that \<^verbatim>\<open>execute\<close> returns
  is not empty. (The loop is a total function: its termination is proved with the
  measure \<open>N + 2 - iterationCount\<close>.)
\<close>

theorem agent_budget:
  assumes "\<forall>req. \<exists>m tcs. chat env req = Inr (Some m) \<and> cm_tool_calls m = Some tcs \<and> tcs \<noteq> []"
  shows "\<exists>st. agentLoop env (agentService env options) (OpenProjectToolsRegistry (impls env))
                 (case max_iterations options of None \<Rightarrow> 5 | Some n \<Rightarrow> n) (task options)
                 (initialState options) = Inr st \<and>
              (case max_iterations options of None \<Rightarrow> 5 | Some n \<Rightarrow> n) \<le> iterationCount st \<and>
              iterationCount st \<le> (case max_iterations options of None \<Rightarrow> 5 | Some n \<Rightarrow> n) + 2 \<and>
              openProjectAgent_execute env options \<noteq> []"
proof -
  define N where "N = (case max_iterations options of None \<Rightarrow> 5 | Some n \<Rightarrow> n)"
  define ai where "ai = agentService env options"
  have a: "\<forall>msgs. \<exists>r. generateResponse ai msgs = Inr r \<and> wantsTools r"
    using generateResponse_always_tools [of ai] assms unfolding ai_def by simp
  obtain st where st: "agentLoop env ai (OpenProjectToolsRegistry (impls env)) N (task options)
                 (initialState options) = Inr st" "\<not> loopCondition N st"
    using agentLoop_always_tools [OF a] by blast
  have lo: "N \<le> iterationCount st"
    using st(2) by (simp add: loopCondition_def)
  have hi: "iterationCount st \<le> N + 2"
    using agentLoop_bound [OF st(1)] by (simp add: initialState_def)
  show ?thesis
    using st(1) lo hi execute_nonempty unfolding N_def ai_def by blast
qed

theorem agent_budget_witness:
  "(\<forall>req. \<exists>m tcs. chat (ex_env ex_always_search) req = Inr (Some m) \<and>
                   cm_tool_calls m = Some tcs \<and> tcs \<noteq> []) \<and>
   (\<exists>st. agentLoop (ex_env ex_always_search)
            (agentService (ex_env ex_always_search) (ex_options ''list issues by raj'' 1))
            (OpenProjectToolsRegistry (impls (ex_env ex_always_search))) 1 ''list issues by raj''
            (initialState (ex_options ''list issues by raj'' 1)) = Inr st \<and>
          1 \<le> iterationCount st \<and> iterationCount st \<le> 1 + 2 \<and>
          openProjectAgent_execute (ex_env ex_always_search)
            (ex_options ''list issues by raj'' 1) \<noteq> [])"
proof -
  have h: "\<forall>req. \<exists>m tcs. chat (ex_env ex_always_search) req = Inr (Some m) \<and>
                   cm_tool_calls m = Some tcs \<and> tcs \<noteq> []"
    by (simp add: ex_env_def ex_always_search_def)
  show ?thesis
    using h agent_budget [OF h, of "ex_options ''list issues by raj'' 1"]
    by (simp add: ex_options_def)
qed

subsection \<open>Budget exhaustion\<close>

lemma messages_toolStep:
  "messages (toolStep env reg N t st response) =
     messages st @
     [\<lparr> role = Assistant,
        content = (case cm_content (resp_message response) of None \<Rightarrow> Null | Some s \<Rightarrow> Str s),
        name = None, tool_calls = resp_tool_calls response, tool_call_id = None \<rparr>] @
     map toolResultMessage
       (agentToolResults env reg (case resp_tool_calls response of None \<Rightarrow> [] | Some cs \<Rightarrow> cs)) @
     (if (iterationCount st = N \<and> \<not> foundUserIdButNeedsList (toolStep env reg N t st response)) \<or>
         iterationCount st = N + 2
      then [summaryMessage] else [])"
  by (simp add: toolStep_def Let_def)

lemma agentRun_step:
  assumes "loopCondition N st" "generateResponse ai (messages st) = Inr r" "wantsTools r"
  shows "agentRun env ai reg N t st =
         agentRun env ai reg N t
           (toolStep env reg N t (st \<lparr> iterationCount := iterationCount st + 1 \<rparr>) r)"
  unfolding agentRun_def agentLoop_tools [OF assms, of env reg t] ..

lemma agentRun_exit:
  assumes "\<not> loopCondition N st" "finalResponse st = []"
  shows "agentRun env ai reg N t st =
     (case generateResponse ai (messages st) of
        Inl e \<Rightarrow> Inl e
      | Inr r \<Rightarrow>
          Inr (case cm_content (resp_message r) of
                 Some s \<Rightarrow> s
               | None \<Rightarrow> ''OpenProject task completed after maximum iterations.'',
               iterationCount st))"
proof -
  have "N \<le> iterationCount st"
    using assms(1) by (simp add: loopCondition_def)
  then show ?thesis
    using assms by (simp add: agentRun_def agentLoop_exit)
qed


text \<open>
  Claim C4 (as amended). Let an iteration of the loop receive a response that requests
  tools, and let \<open>st'\<close> be the state after its tool step. The run goes on from \<open>st'\<close>.
  When the counter has reached the budget \<open>N\<close> and the identifier heuristic has not
  fired, or when the counter has reached \<open>N + 2\<close>, the step appends the summary request
  as its only user message and the loop ends there. When the counter has reached \<open>N\<close>
  and the heuristic has fired, no user message is appended and the loop goes on (for up
  to two more ordinary iterations). Once the loop has ended, one more completion is
  requested and its text, or the generic completion notice, is the result.
\<close>

theorem budget_exhaustion:
  assumes "loopCondition N st0" and "generateResponse ai (messages st0) = Inr response"
    and "wantsTools response" and "finalResponse st0 = []"
    and "st' = toolStep env reg N t (st0 \<lparr> iterationCount := iterationCount st0 + 1 \<rparr>) response"
  shows "agentRun env ai reg N t st0 = agentRun env ai reg N t st' \<and>
     ((iterationCount st0 + 1 = N \<and> \<not> foundUserIdButNeedsList st') \<or> iterationCount st0 + 1 = N + 2
        \<longrightarrow> (\<exists>added. messages st' = messages st0 @ added @ [summaryMessage] \<and>
                     User \<notin> role ` set added) \<and>
            agentLoop env ai reg N t st' = Inr st') \<and>
     (iterationCount st0 + 1 = N \<and> foundUserIdButNeedsList st'
        \<longrightarrow> (\<exists>added. messages st' = messages st0 @ added \<and> User \<notin> role ` set added) \<and>
            loopCondition N st') \<and>
     (\<not> loopCondition N st'
        \<longrightarrow> agentRun env ai reg N t st' =
              (case generateResponse ai (messages st') of
                 Inl e \<Rightarrow> Inl e
               | Inr r \<Rightarrow>
                   Inr (case cm_content (resp_message r) of
                          Some s \<Rightarrow> s
                        | None \<Rightarrow> ''OpenProject task completed after maximum iterations.'',
                        iterationCount st')))"
proof (intro conjI impI)
  let ?st1 = "st0 \<lparr> iterationCount := iterationCount st0 + 1 \<rparr>"
  define added where "added =
     [\<lparr> role = Assistant,
        content = (case cm_content (resp_message response) of None \<Rightarrow> Null | Some s \<Rightarrow> Str s),
        name = None, tool_calls = resp_tool_calls response, tool_call_id = None \<rparr>] @
     map toolResultMessage
       (agentToolResults env reg (case resp_tool_calls response of None \<Rightarrow> [] | Some cs \<Rightarrow> cs))"
  have roles: "User \<notin> role ` set added"
    by (auto simp: added_def toolResultMessage_def)
  have msgs: "messages st' = messages st0 @ added @
     (if (iterationCount st0 + 1 = N \<and> \<not> foundUserIdButNeedsList st') \<or>
         iterationCount st0 + 1 = N + 2
      then [summaryMessage] else [])"
    unfolding assms(5) messages_toolStep added_def by simp
  have cnt: "iterationCount st' = iterationCount st0 + 1"
    unfolding assms(5) by simp
  have fin: "finalResponse st' = []"
    unfolding assms(5) using assms(4) by simp
  show "agentRun env ai reg N t st0 = agentRun env ai reg N t st'"
    unfolding assms(5) by (rule agentRun_step [OF assms(1-3)])
  {
    assume a: "(iterationCount st0 + 1 = N \<and> \<not> foundUserIdButNeedsList st') \<or>
               iterationCount st0 + 1 = N + 2"
    have "messages st' = messages st0 @ added @ [summaryMessage]"
      using msgs a by simp
    with roles show "\<exists>added. messages st' = messages st0 @ added @ [summaryMessage] \<and>
                     User \<notin> role ` set added"
      by blast
    have "\<not> loopCondition N st'"
      using a cnt by (auto simp: loopCondition_def)
    then show "agentLoop env ai reg N t st' = Inr st'"
      by (rule agentLoop_exit)
  }
  {
    assume a: "iterationCount st0 + 1 = N \<and> foundUserIdButNeedsList st'"
    have "messages st' = messages st0 @ added"
      using msgs a by simp
    with roles show "\<exists>added. messages st' = messages st0 @ added \<and> User \<notin> role ` set added"
      by blast
    show "loopCondition N st'"
      using a cnt by (simp add: loopCondition_def)
  }
  {
    assume "\<not> loopCondition N st'"
    then show "agentRun env ai reg N t st' =
              (case generateResponse ai (messages st') of
                 Inl e \<Rightarrow> Inl e
               | Inr r \<Rightarrow>
                   Inr (case cm_content (resp_message r) of
                          Some s \<Rightarrow> s
                        | None \<Rightarrow> ''OpenProject task completed after maximum iterations.'',
                        iterationCount st'))"
      using fin by (rule agentRun_exit)
  }
qed

subsection \<open>Example runs\<close>

definition ex_search_response :: AIResponse where
  "ex_search_response =
     \<lparr> resp_message = \<lparr> cm_content = None,
                         cm_tool_calls = Some [ex_call ''c1'' ''search_users''] \<rparr>,
       resp_tool_calls = Some [ex_call ''c1'' ''search_users''] \<rparr>"

lemma ex_generateResponse:
  "generateResponse (agentService (ex_env ex_always_search) options) msgs = Inr ex_search_response"
  by (simp add: generateResponse_def ex_search_response_def ex_env_def ex_always_search_def)

lemma ex_wantsTools: "wantsTools ex_search_response"
  by (simp add: wantsTools_def ex_search_response_def)

lemma ex_results:
  "agentToolResults (ex_env c) (OpenProjectToolsRegistry (impls (ex_env c)))
     [ex_call ''c1'' ''search_users''] = [ex_result ''c1'' ''User ID: 8'']"
  by (simp add: agentToolResult_def ex_call_def ex_result_def ex_env_def ex_impl_def
      OpenProjectToolsRegistry_def registerTool_def openProject_executeTool_def
      listProjectsTool_def createWorkPackageTool_def listWorkPackagesTool_def assignUserTool_def
      searchUsersTool_def getMetadataTool_def mkTool_def)

lemma ex_found:
  "foundUserId ''list issues by raj'' [ex_call ''c1'' ''search_users''] [ex_result ''c1'' ''User ID: 8'']"
  "\<not> foundUserId ''who is raj'' [ex_call ''c1'' ''search_users''] [ex_result ''c1'' ''User ID: 8'']"
  by (simp_all add: foundUserId_def ex_call_def ex_result_def toLowerCase_def lower_char_def)

definition ex_registry :: "unit Registry" where
  "ex_registry = OpenProjectToolsRegistry (impls (ex_env ex_always_search))"

definition ex_ai :: "string \<Rightarrow> AIService" where
  "ex_ai t = agentService (ex_env ex_always_search) (ex_options t 1)"

definition ex_assistant :: AIMessage where
  "ex_assistant = \<lparr> role = Assistant, content = Null, name = None,
                     tool_calls = Some [ex_call ''c1'' ''search_users''], tool_call_id = None \<rparr>"

definition ex_tool :: AIMessage where
  "ex_tool = \<lparr> role = Tool, content = Str ''User ID: 8'', name = None, tool_calls = None,
                tool_call_id = Some ''c1'' \<rparr>"

lemma ex_toolStep:
  "toolStep (ex_env ex_always_search) ex_registry 1 t st ex_search_response =
     st \<lparr> foundUserIdButNeedsList :=
            (foundUserIdButNeedsList st \<or>
             foundUserId t [ex_call ''c1'' ''search_users''] [ex_result ''c1'' ''User ID: 8'']),
          messages :=
            messages st @ [ex_assistant, ex_tool] @
            (if (iterationCount st = 1 \<and>
                 \<not> (foundUserIdButNeedsList st \<or>
                    foundUserId t [ex_call ''c1'' ''search_users''] [ex_result ''c1'' ''User ID: 8''])) \<or>
                iterationCount st = 3
             then [summaryMessage] else []) \<rparr>"
  unfolding toolStep_def ex_registry_def
  by (simp add: Let_def ex_search_response_def ex_results toolResultMessage_def
        ex_assistant_def ex_tool_def del: agentToolResults.simps) (simp add: ex_result_def)

lemma ex_roles [simp]: "role ex_assistant = Assistant" "role ex_tool = Tool" "role summaryMessage = User"
  by (simp_all add: ex_assistant_def ex_tool_def summaryMessage_def)

lemma ex_not_summary [simp]:
  "summaryMessage \<noteq> ex_assistant" "summaryMessage \<noteq> ex_tool"
  by (auto simp: ex_assistant_def ex_tool_def summaryMessage_def)

lemma ex_initial:
  "initialState (ex_options t n) =
     \<lparr> iterationCount = 0, finalResponse = [], foundUserIdButNeedsList = False,
       messages = [\<lparr> role = User,
            content = Str (''Please help me with this OpenProject task: '' @ t),
            name = None, tool_calls = None, tool_call_id = None \<rparr>] \<rparr>"
  by (simp add: initialState_def ex_options_def truthy_def)

lemma ex_initial_not_summary:
  "summaryMessage \<noteq> \<lparr> role = User,
            content = Str (''Please help me with this OpenProject task: '' @ t),
            name = None, tool_calls = None, tool_call_id = None \<rparr>"
  by (simp add: summaryMessage_def summaryPrompt_def)

theorem budget_exhaustion_witness:
  "loopCondition 1 (initialState (ex_options ''who is raj'' 1)) \<and>
   generateResponse (ex_ai ''who is raj'')
     (messages (initialState (ex_options ''who is raj'' 1))) = Inr ex_search_response \<and>
   wantsTools ex_search_response \<and>
   finalResponse (initialState (ex_options ''who is raj'' 1)) = [] \<and>
   iterationCount (initialState (ex_options ''who is raj'' 1)) + 1 = 1 \<and>
   \<not> foundUserIdButNeedsList
       (toolStep (ex_env ex_always_search) ex_registry 1 ''who is raj''
          ((initialState (ex_options ''who is raj'' 1)) \<lparr> iterationCount := 1 \<rparr>)
          ex_search_response) \<and>
   (\<exists>added.
      messages (toolStep (ex_env ex_always_search) ex_registry 1 ''who is raj''
          ((initialState (ex_options ''who is raj'' 1)) \<lparr> iterationCount := 1 \<rparr>)
          ex_search_response) =
        messages (initialState (ex_options ''who is raj'' 1)) @ added @ [summaryMessage] \<and>
      User \<notin> role ` set added) \<and>
   agentRun (ex_env ex_always_search) (ex_ai ''who is raj'') ex_registry 1 ''who is raj''
     (initialState (ex_options ''who is raj'' 1)) =
     Inr (''OpenProject task completed after maximum iterations.'', 1)"
proof -
  let ?t = "''who is raj''"
  let ?e = "ex_env ex_always_search"
  define st0 where "st0 = initialState (ex_options ?t 1)"
  define st' where
    "st' = toolStep ?e ex_registry 1 ?t (st0 \<lparr> iterationCount := iterationCount st0 + 1 \<rparr>)
             ex_search_response"
  have g: "\<And>msgs. generateResponse (ex_ai ?t) msgs = Inr ex_search_response"
    unfolding ex_ai_def by (rule ex_generateResponse)
  have c0: "loopCondition 1 st0"
    by (simp add: loopCondition_def st0_def ex_initial)
  have f0: "finalResponse st0 = []"
    by (simp add: st0_def ex_initial)
  have i0: "iterationCount st0 + 1 = 1"
    by (simp add: st0_def ex_initial)
  have nf: "\<not> foundUserIdButNeedsList st'"
    unfolding st'_def ex_toolStep by (simp add: st0_def ex_initial ex_found)
  have i1: "iterationCount st' = 1"
    unfolding st'_def using i0 by simp
  have nc: "\<not> loopCondition 1 st'"
    using nf i1 by (simp add: loopCondition_def)
  note b = budget_exhaustion [OF c0 g ex_wantsTools f0 st'_def]
  have run0: "agentRun ?e (ex_ai ?t) ex_registry 1 ?t st0 = agentRun ?e (ex_ai ?t) ex_registry 1 ?t st'"
    using b by (rule conjunct1)
  have added: "\<exists>added. messages st' = messages st0 @ added @ [summaryMessage] \<and>
                     User \<notin> role ` set added"
    using b i0 nf by blast
  have "agentRun ?e (ex_ai ?t) ex_registry 1 ?t st' =
              (case generateResponse (ex_ai ?t) (messages st') of
                 Inl e \<Rightarrow> Inl e
               | Inr r \<Rightarrow>
                   Inr (case cm_content (resp_message r) of
                          Some s \<Rightarrow> s
                        | None \<Rightarrow> ''OpenProject task completed after maximum iterations.'',
                        iterationCount st'))"
    using b nc by blast
  then have run: "agentRun ?e (ex_ai ?t) ex_registry 1 ?t st0 =
      Inr (''OpenProject task completed after maximum iterations.'', 1)"
    unfolding run0 g i1 by (simp add: ex_search_response_def)
  have st1: "st0 \<lparr> iterationCount := iterationCount st0 + 1 \<rparr> = st0 \<lparr> iterationCount := 1 \<rparr>"
    using i0 by simp
  note facts = c0 [unfolded st0_def] g [of "messages (initialState (ex_options ?t 1))"]
    ex_wantsTools f0 [unfolded st0_def] i0 [unfolded st0_def]
    nf [unfolded st'_def st1, unfolded st0_def] added [unfolded st'_def st1, unfolded st0_def]
    run [unfolded st0_def]
  show ?thesis
    by (intro conjI) (rule facts)+
qed

text \<open>
  The claim as first stated fails when the heuristic fires: with budget 1, a task that
  speaks of issues and a \<^verbatim>\<open>search_users\<close> result that shows a user id, the first
  iteration reaches the budget with tools requested and appends no summary request; two
  more iterations run their tools, and the summary request comes last, after the third.
\<close>

definition ex_final_state :: LoopState where
  "ex_final_state =
     \<lparr> iterationCount = 3, finalResponse = [], foundUserIdButNeedsList = True,
       messages =
         [\<lparr> role = User,
            content = Str (''Please help me with this OpenProject task: '' @ ''list issues by raj''),
            name = None, tool_calls = None, tool_call_id = None \<rparr>,
          ex_assistant, ex_tool, ex_assistant, ex_tool, ex_assistant, ex_tool,
          summaryMessage] \<rparr>"

theorem no_summary_at_ceiling_counterexample:
  "loopCondition 1 (initialState (ex_options ''list issues by raj'' 1)) \<and>
   generateResponse (ex_ai ''list issues by raj'')
     (messages (initialState (ex_options ''list issues by raj'' 1))) = Inr ex_search_response \<and>
   wantsTools ex_search_response \<and>
   iterationCount (initialState (ex_options ''list issues by raj'' 1)) + 1 = 1 \<and>
   summaryMessage \<notin> set (messages
     (toolStep (ex_env ex_always_search) ex_registry 1 ''list issues by raj''
        ((initialState (ex_options ''list issues by raj'' 1)) \<lparr> iterationCount := 1 \<rparr>)
        ex_search_response)) \<and>
   agentLoop (ex_env ex_always_search) (ex_ai ''list issues by raj'') ex_registry 1
     ''list issues by raj'' (initialState (ex_options ''list issues by raj'' 1)) =
     Inr ex_final_state \<and>
   iterationCount ex_final_state = 3 \<and>
   map role (messages ex_final_state) =
     [User, Assistant, Tool, Assistant, Tool, Assistant, Tool, User] \<and>
   last (messages ex_final_state) = summaryMessage"
proof -
  let ?t = "''list issues by raj''"
  let ?e = "ex_env ex_always_search"
  let ?u = "\<lparr> role = User,
            content = Str (''Please help me with this OpenProject task: '' @ ?t),
            name = None, tool_calls = None, tool_call_id = None \<rparr>"
  define st0 where "st0 = initialState (ex_options ?t 1)"
  define st1 where "st1 = \<lparr> iterationCount = 1, finalResponse = [], foundUserIdButNeedsList = True,
       messages = [?u, ex_assistant, ex_tool] \<rparr>"
  define st2 where "st2 = \<lparr> iterationCount = 2, finalResponse = [], foundUserIdButNeedsList = True,
       messages = [?u, ex_assistant, ex_tool, ex_assistant, ex_tool] \<rparr>"
  have g: "\<And>msgs. generateResponse (ex_ai ?t) msgs = Inr ex_search_response"
    unfolding ex_ai_def by (rule ex_generateResponse)
  have s01: "toolStep ?e ex_registry 1 ?t (st0 \<lparr> iterationCount := iterationCount st0 + 1 \<rparr>)
               ex_search_response = st1"
    unfolding ex_toolStep st0_def st1_def ex_initial by (simp add: ex_found)
  have s12: "toolStep ?e ex_registry 1 ?t (st1 \<lparr> iterationCount := iterationCount st1 + 1 \<rparr>)
               ex_search_response = st2"
    unfolding ex_toolStep st1_def st2_def by simp
  have s23: "toolStep ?e ex_registry 1 ?t (st2 \<lparr> iterationCount := iterationCount st2 + 1 \<rparr>)
               ex_search_response = ex_final_state"
    unfolding ex_toolStep st2_def ex_final_state_def by simp
  have c0: "loopCondition 1 st0"
    by (simp add: loopCondition_def st0_def ex_initial)
  have c1: "loopCondition 1 st1"
    by (simp add: loopCondition_def st1_def)
  have c2: "loopCondition 1 st2"
    by (simp add: loopCondition_def st2_def)
  have c3: "\<not> loopCondition 1 ex_final_state"
    by (simp add: loopCondition_def ex_final_state_def)
  have run: "agentLoop ?e (ex_ai ?t) ex_registry 1 ?t st0 = Inr ex_final_state"
    unfolding agentLoop_tools [OF c0 g ex_wantsTools, of ?e ex_registry ?t] s01
      agentLoop_tools [OF c1 g ex_wantsTools, of ?e ex_registry ?t] s12
      agentLoop_tools [OF c2 g ex_wantsTools, of ?e ex_registry ?t] s23
    by (rule agentLoop_exit [OF c3])
  have first: "toolStep ?e ex_registry 1 ?t (st0 \<lparr> iterationCount := 1 \<rparr>) ex_search_response = st1"
    using s01 by (simp add: st0_def ex_initial)
  have nos: "summaryMessage \<notin> set (messages st1)"
    using ex_initial_not_summary [of ?t] by (simp add: st1_def)
  have fin: "iterationCount ex_final_state = 3"
    "map role (messages ex_final_state) = [User, Assistant, Tool, Assistant, Tool, Assistant, Tool, User]"
    "last (messages ex_final_state) = summaryMessage"
    by (simp_all add: ex_final_state_def)
  have i0: "iterationCount st0 + 1 = 1"
    by (simp add: st0_def ex_initial)
  note facts = c0 [unfolded st0_def] g [of "messages (initialState (ex_options ?t 1))"]
    ex_wantsTools i0 [unfolded st0_def] nos [unfolded first [symmetric] st0_def]
    run [unfolded st0_def] fin
  show ?thesis
    by (intro conjI) (rule facts)+
qed


section \<open>Tool failures\<close>


lemma tr_tool_call_id_agentToolResult [simp]:
  "tr_tool_call_id (agentToolResult env reg c) = tc_id c"
  by (simp add: agentToolResult_def Let_def split: sum.splits)





lemma processCalls_map:
  "processCalls benv tcs =
     map (processToolCall benv) (filter (\<lambda>c. tc_type c = ''function'') tcs)"
  by (induction tcs) simp_all

lemma tr_tool_call_id_processToolCall [simp]:
  "tr_tool_call_id (processToolCall benv c) = tc_id c"
  by (simp add: processToolCall_def Let_def split: sum.splits)

lemma processCalls_ids:
  "map tr_tool_call_id (processCalls benv tcs) =
     map tc_id (filter (\<lambda>c. tc_type c = ''function'') tcs)"
  by (simp add: processCalls_map)


lemma handleToolCalls_request:
  "handleToolCalls benv ai aiMessages response =
     (case generateResponse ai
             (aiMessages @ [responseMessage response] @
              createToolResultMessages (processToolCalls benv (resp_tool_calls response))) of
        Inl error \<Rightarrow> Inl error
      | Inr followUpResponse \<Rightarrow>
          Inr (WithTools
                 (or_else (cm_content (resp_message followUpResponse))
                    ''I processed your request but have no response.'')
                 (case resp_tool_calls response of None \<Rightarrow> [] | Some cs \<Rightarrow> cs)
                 (processToolCalls benv (resp_tool_calls response))))"
  by (simp add: handleToolCalls_def Let_def)


definition ex_bot_env :: "ChatClient \<Rightarrow> unit BotEnv" where
  "ex_bot_env c =
     \<lparr> agentEnv = ex_env c, dateTime_execute = (\<lambda>a. Inr ''noon''),
       asAgentOptions = (\<lambda>a. Some (ex_options ''list projects'' 1)),
       download = (\<lambda>u. None), generateSystemPrompt = (\<lambda>m. ''You are Arki''),
       deliver = (\<lambda>s. Inr (Some (ex_message ''99'' 9 True s))) \<rparr>"



lemma ex_jsonParse [simp]:
  "jsonParse (ex_env c) ''{}'' = Inr ()"
  "jsonParse (ex_env c) ''{bad'' = Inl ''Unexpected end of JSON input''"
  by (simp_all add: ex_env_def)



section \<open>Failures of the chat-completion client\<close>


lemma maxTokens_agentService [simp]: "maxTokens (agentService env options) = 8192"
  by (simp add: agentService_def newAIService_def)















definition ex_event :: Event where
  "ex_event =
     \<lparr> ev_message = ex_message ''50'' 50 False ''<@1> list projects'',
       ev_channel = Some \<lparr> anchorId = None, fetchAfterAnchor = Inl OtherFetchError,
                           fetchLatest = Inr [ex_message ''50'' 50 False ''<@1> list projects''] \<rparr>,
       ev_clientUserId = Some ''1'', ev_botMentioned = True, ev_userAllowed = True \<rparr>"



section \<open>The nested agent and the ledger\<close>

lemma getToolNames_OpenProjectToolsRegistry:
  "getToolNames (OpenProjectToolsRegistry imp) =
     [''list_projects'', ''create_work_package'', ''list_work_packages'', ''assign_user'',
      ''search_users'', ''get_metadata'']"
  by (simp add: getToolNames_def OpenProjectToolsRegistry_def registerTool_def
      listProjectsTool_def createWorkPackageTool_def listWorkPackagesTool_def assignUserTool_def
      searchUsersTool_def getMetadataTool_def mkTool_def)

lemma getToolNames_toolsRegistry:
  "getToolNames (toolsRegistry benv) = [''get_date_time'', ''openproject_agent'']"
  by (simp add: getToolNames_def toolsRegistry_def registerTool_def dateTimeTool_def
      openProjectAgentTool_def)

lemma td_names_getToolDefinitions:
  "map td_name (getToolDefinitions (OpenProjectToolsRegistry imp)) =
     [''list_projects'', ''create_work_package'', ''list_work_packages'', ''assign_user'',
      ''search_users'', ''get_metadata'']"
  by (simp add: getToolDefinitions_def OpenProjectToolsRegistry_def registerTool_def
      listProjectsTool_def createWorkPackageTool_def listWorkPackagesTool_def assignUserTool_def
      searchUsersTool_def getMetadataTool_def mkTool_def)

lemma tools_agentService:
  "tools (agentService env options) = getToolDefinitions (OpenProjectToolsRegistry (impls env))"
  by (simp add: agentService_def newAIService_def)

lemma req_tools_agentService:
  "req_tools (chatRequest (agentService env options) msgs) =
     Some (getToolDefinitions (OpenProjectToolsRegistry (impls env)))"
proof -
  have "length (getToolDefinitions (OpenProjectToolsRegistry (impls env))) =
        length (map td_name (getToolDefinitions (OpenProjectToolsRegistry (impls env))))"
    by simp
  then have "length (getToolDefinitions (OpenProjectToolsRegistry (impls env))) > 0"
    unfolding td_names_getToolDefinitions by simp
  then show ?thesis
    by (simp add: chatRequest_def Let_def tools_agentService)
qed

lemma processUserMessage_store:
  "fst (snd (processUserMessage benv (L, cache) message channel cid)) =
     cleanupOldToolCalls L (fetchRecentMessages channel)"
  by (simp add: processUserMessage_def Let_def case_prod_beta)

lemma processUserMessage_WithTools:
  assumes "fst (processUserMessage benv (L, cache) message channel cid) = Inr (WithTools c tcs trs)"
  shows "\<exists>response.
           generateResponse (outerService benv message)
             (fst (convertToAIMessages (download benv)
                     (cleanupOldToolCalls L (fetchRecentMessages channel)) cache
                     (fetchRecentMessages channel)
                     (extractQueryFromMention (msg_content message) cid))) = Inr response \<and>
           wantsTools response \<and>
           tcs = (case resp_tool_calls response of None \<Rightarrow> [] | Some cs \<Rightarrow> cs) \<and>
           trs = processToolCalls benv (resp_tool_calls response)"
proof -
  define A where "A = fst (convertToAIMessages (download benv)
                     (cleanupOldToolCalls L (fetchRecentMessages channel)) cache
                     (fetchRecentMessages channel)
                     (extractQueryFromMention (msg_content message) cid))"
  define ai where "ai = outerService benv message"
  have p: "fst (processUserMessage benv (L, cache) message channel cid) =
      (case generateResponse ai A of
            Inl error \<Rightarrow> Inl error
          | Inr response \<Rightarrow>
              if wantsTools response then handleToolCalls benv ai A response
              else Inr (Plain (or_else (cm_content (resp_message response))
                                 ''I processed your request but have no response.'')))"
    by (simp add: processUserMessage_def Let_def case_prod_beta A_def ai_def split: sum.splits)
  show ?thesis
  proof (cases "generateResponse ai A")
    case (Inl e)
    with assms p show ?thesis by simp
  next
    case (Inr response)
    show ?thesis
    proof (cases "wantsTools response")
      case False
      with assms p Inr show ?thesis by simp
    next
      case True
      then have h: "handleToolCalls benv ai A response = Inr (WithTools c tcs trs)"
        using assms p Inr by simp
      have "tcs = (case resp_tool_calls response of None \<Rightarrow> [] | Some cs \<Rightarrow> cs) \<and>
           trs = processToolCalls benv (resp_tool_calls response)"
        using h unfolding handleToolCalls_request by (simp split: sum.splits)
      with Inr True show ?thesis
        unfolding A_def ai_def by blast
    qed
  qed
qed

lemma sendResponse_store:
  "snd (sendResponse benv L1 response) = L1 \<or>
   (\<exists>sent c tcs trs. response = WithTools c tcs trs \<and> deliver benv c = Inr (Some sent) \<and>
      snd (sendResponse benv L1 response) = storeToolCallsForMessage L1 sent tcs trs)"
  by (cases response)
     (auto simp: sendResponse_def responseContent_def split: sum.splits option.splits)

lemma handleMessage_store:
  "out_store (handleMessage benv (L, cache) event) = L \<or>
   (\<exists>channel. ev_channel event = Some channel \<and>
      (out_store (handleMessage benv (L, cache) event) =
         cleanupOldToolCalls L (fetchRecentMessages channel) \<or>
       (\<exists>response.
          fst (processUserMessage benv (L, cache) (ev_message event) channel
                 (the (ev_clientUserId event))) = Inr response \<and>
          out_store (handleMessage benv (L, cache) event) =
            snd (sendResponse benv (cleanupOldToolCalls L (fetchRecentMessages channel)) response))))"
proof (cases "ev_channel event")
  case None
  then show ?thesis by (simp add: handleMessage_def Let_def)
next
  case (Some channel)
  obtain r L1 c1 where p: "processUserMessage benv (L, cache) (ev_message event) channel
      (the (ev_clientUserId event)) = (r, L1, c1)"
    by (metis prod_cases3)
  have L1: "L1 = cleanupOldToolCalls L (fetchRecentMessages channel)"
    using processUserMessage_store [of benv L cache "ev_message event" channel
        "the (ev_clientUserId event)"] p by simp
  show ?thesis
  proof (cases r)
    case (Inl e)
    then show ?thesis
      using Some p L1 by (simp add: handleMessage_def Let_def)
  next
    case (Inr response)
    obtain u L2 where s: "sendResponse benv L1 response = (u, L2)"
      by (cases "sendResponse benv L1 response")
    have "out_store (handleMessage benv (L, cache) event) = L \<or>
          out_store (handleMessage benv (L, cache) event) = L2"
      using Some p Inr s by (simp add: handleMessage_def Let_def split: sum.splits)
    then show ?thesis
      using Some p Inr s L1 by auto
  qed
qed

lemma handleMessage_ledger:
  "out_store (handleMessage benv (L, cache) event) = L \<or>
   (\<exists>channel. ev_channel event = Some channel \<and>
      (out_store (handleMessage benv (L, cache) event) =
         cleanupOldToolCalls L (fetchRecentMessages channel) \<or>
       (\<exists>response sent text.
          generateResponse (outerService benv (ev_message event))
            (fst (convertToAIMessages (download benv)
                    (cleanupOldToolCalls L (fetchRecentMessages channel)) cache
                    (fetchRecentMessages channel)
                    (extractQueryFromMention (msg_content (ev_message event))
                       (the (ev_clientUserId event))))) = Inr response \<and>
          wantsTools response \<and> deliver benv text = Inr (Some sent) \<and>
          out_store (handleMessage benv (L, cache) event) =
            storeToolCallsForMessage (cleanupOldToolCalls L (fetchRecentMessages channel)) sent
              (case resp_tool_calls response of None \<Rightarrow> [] | Some cs \<Rightarrow> cs)
              (processToolCalls benv (resp_tool_calls response)))))"
proof -
  define S where "S = out_store (handleMessage benv (L, cache) event)"
  consider (same) "S = L"
    | (step) channel where "ev_channel event = Some channel"
        "S = cleanupOldToolCalls L (fetchRecentMessages channel)"
    | (sent) channel response where "ev_channel event = Some channel"
        "fst (processUserMessage benv (L, cache) (ev_message event) channel
                 (the (ev_clientUserId event))) = Inr response"
        "S = snd (sendResponse benv (cleanupOldToolCalls L (fetchRecentMessages channel)) response)"
    using handleMessage_store [of benv L cache event] unfolding S_def by blast
  then have "S = L \<or>
   (\<exists>channel. ev_channel event = Some channel \<and>
      (S = cleanupOldToolCalls L (fetchRecentMessages channel) \<or>
       (\<exists>response sent text.
          generateResponse (outerService benv (ev_message event))
            (fst (convertToAIMessages (download benv)
                    (cleanupOldToolCalls L (fetchRecentMessages channel)) cache
                    (fetchRecentMessages channel)
                    (extractQueryFromMention (msg_content (ev_message event))
                       (the (ev_clientUserId event))))) = Inr response \<and>
          wantsTools response \<and> deliver benv text = Inr (Some sent) \<and>
          S = storeToolCallsForMessage (cleanupOldToolCalls L (fetchRecentMessages channel)) sent
              (case resp_tool_calls response of None \<Rightarrow> [] | Some cs \<Rightarrow> cs)
              (processToolCalls benv (resp_tool_calls response)))))"
  proof cases
    case same
    then show ?thesis by simp
  next
    case step
    then show ?thesis by simp
  next
    case (sent channel r)
    define L1 where "L1 = cleanupOldToolCalls L (fetchRecentMessages channel)"
    from sendResponse_store [of benv L1 r]
    show ?thesis
    proof (elim disjE exE conjE)
      assume "snd (sendResponse benv L1 r) = L1"
      then show ?thesis using sent unfolding L1_def by simp
    next
      fix m c tcs trs
      assume w: "r = WithTools c tcs trs" and d: "deliver benv c = Inr (Some m)"
        and st: "snd (sendResponse benv L1 r) = storeToolCallsForMessage L1 m tcs trs"
      from processUserMessage_WithTools [OF sent(2) [unfolded w]]
      obtain response where r: "generateResponse (outerService benv (ev_message event))
            (fst (convertToAIMessages (download benv)
                    (cleanupOldToolCalls L (fetchRecentMessages channel)) cache
                    (fetchRecentMessages channel)
                    (extractQueryFromMention (msg_content (ev_message event))
                       (the (ev_clientUserId event))))) = Inr response"
        "wantsTools response"
        "tcs = (case resp_tool_calls response of None \<Rightarrow> [] | Some cs \<Rightarrow> cs)"
        "trs = processToolCalls benv (resp_tool_calls response)"
        by blast
      have "S = storeToolCallsForMessage (cleanupOldToolCalls L (fetchRecentMessages channel)) m
              (case resp_tool_calls response of None \<Rightarrow> [] | Some cs \<Rightarrow> cs)
              (processToolCalls benv (resp_tool_calls response))"
        using sent(3) st r(3,4) unfolding L1_def by simp
      with r(1,2) d sent(1) show ?thesis by blast
    qed
  qed
  then show ?thesis unfolding S_def .
qed

text \<open>
  Claim C6. The registry that the OpenProject agent builds holds exactly its six tools;
  none of them is a tool of the outer registry, the agent tool itself is not among them
  (asking for it inside the agent is an unknown-tool error), and every request of the
  agent's service offers exactly these six tools. The agent's \<^verbatim>\<open>execute\<close> is a function of
  its environment and options alone: it is not given the ledger and returns none.
  Handling a message leaves the ledger as it was, or evicted, or evicted and extended by
  one entry under the sent message; that entry holds the tool calls of the outer response
  and the results of the outer calls, each under the id of an outer call.
\<close>

theorem nested_agent_isolation:
  "getToolNames (OpenProjectToolsRegistry (impls env)) =
     [''list_projects'', ''create_work_package'', ''list_work_packages'', ''assign_user'',
      ''search_users'', ''get_metadata''] \<and>
   getToolCount (OpenProjectToolsRegistry (impls env)) = 6 \<and>
   ''openproject_agent'' \<notin> set (getToolNames (OpenProjectToolsRegistry (impls env))) \<and>
   set (getToolNames (OpenProjectToolsRegistry (impls env))) \<inter>
     set (getToolNames (toolsRegistry benv)) = {} \<and>
   openProject_executeTool (OpenProjectToolsRegistry (impls env)) ''openproject_agent'' args =
     Inl (Error ''OpenProject tool not found: openproject_agent'') \<and>
   map td_name (case req_tools (chatRequest (agentService env options) msgs) of
                  None \<Rightarrow> [] | Some ts \<Rightarrow> ts) =
     [''list_projects'', ''create_work_package'', ''list_work_packages'', ''assign_user'',
      ''search_users'', ''get_metadata''] \<and>
   (out_store (handleMessage benv (L, cache) event) = L \<or>
    (\<exists>channel. ev_channel event = Some channel \<and>
       (out_store (handleMessage benv (L, cache) event) =
          cleanupOldToolCalls L (fetchRecentMessages channel) \<or>
        (\<exists>response sent text.
           generateResponse (outerService benv (ev_message event))
             (fst (convertToAIMessages (download benv)
                     (cleanupOldToolCalls L (fetchRecentMessages channel)) cache
                     (fetchRecentMessages channel)
                     (extractQueryFromMention (msg_content (ev_message event))
                        (the (ev_clientUserId event))))) = Inr response \<and>
           wantsTools response \<and> deliver benv text = Inr (Some sent) \<and>
           out_store (handleMessage benv (L, cache) event) =
             storeToolCallsForMessage (cleanupOldToolCalls L (fetchRecentMessages channel)) sent
               (case resp_tool_calls response of None \<Rightarrow> [] | Some cs \<Rightarrow> cs)
               (processToolCalls benv (resp_tool_calls response)))))) \<and>
   map tr_tool_call_id (processToolCalls benv (Some tcs)) =
     map tc_id (filter (\<lambda>c. tc_type c = ''function'') tcs)"
proof (intro conjI)
  show n: "getToolNames (OpenProjectToolsRegistry (impls env)) =
     [''list_projects'', ''create_work_package'', ''list_work_packages'', ''assign_user'',
      ''search_users'', ''get_metadata'']"
    by (rule getToolNames_OpenProjectToolsRegistry)
  have "getToolCount (OpenProjectToolsRegistry (impls env)) =
        length (getToolNames (OpenProjectToolsRegistry (impls env)))"
    by (simp add: getToolCount_def getToolNames_def)
  then show "getToolCount (OpenProjectToolsRegistry (impls env)) = 6"
    unfolding n by simp
  show "''openproject_agent'' \<notin> set (getToolNames (OpenProjectToolsRegistry (impls env)))"
    unfolding n by simp
  show "set (getToolNames (OpenProjectToolsRegistry (impls env))) \<inter>
     set (getToolNames (toolsRegistry benv)) = {}"
    unfolding n getToolNames_toolsRegistry by simp
  have "''openproject_agent'' \<notin> set (map fst (OpenProjectToolsRegistry (impls env)))"
    using n unfolding getToolNames_def by simp
  then have "map_of (OpenProjectToolsRegistry (impls env)) ''openproject_agent'' = None"
    by (simp add: map_of_eq_None_iff)
  then show "openProject_executeTool (OpenProjectToolsRegistry (impls env)) ''openproject_agent'' args =
     Inl (Error ''OpenProject tool not found: openproject_agent'')"
    by (simp add: openProject_executeTool_def)
  show "map td_name (case req_tools (chatRequest (agentService env options) msgs) of
                  None \<Rightarrow> [] | Some ts \<Rightarrow> ts) =
     [''list_projects'', ''create_work_package'', ''list_work_packages'', ''assign_user'',
      ''search_users'', ''get_metadata'']"
    unfolding req_tools_agentService by (simp add: td_names_getToolDefinitions)
  show "out_store (handleMessage benv (L, cache) event) = L \<or>
    (\<exists>channel. ev_channel event = Some channel \<and>
       (out_store (handleMessage benv (L, cache) event) =
          cleanupOldToolCalls L (fetchRecentMessages channel) \<or>
        (\<exists>response sent text.
           generateResponse (outerService benv (ev_message event))
             (fst (convertToAIMessages (download benv)
                     (cleanupOldToolCalls L (fetchRecentMessages channel)) cache
                     (fetchRecentMessages channel)
                     (extractQueryFromMention (msg_content (ev_message event))
                        (the (ev_clientUserId event))))) = Inr response \<and>
           wantsTools response \<and> deliver benv text = Inr (Some sent) \<and>
           out_store (handleMessage benv (L, cache) event) =
             storeToolCallsForMessage (cleanupOldToolCalls L (fetchRecentMessages channel)) sent
               (case resp_tool_calls response of None \<Rightarrow> [] | Some cs \<Rightarrow> cs)
               (processToolCalls benv (resp_tool_calls response)))))"
    by (rule handleMessage_ledger)
  show "map tr_tool_call_id (processToolCalls benv (Some tcs)) =
     map tc_id (filter (\<lambda>c. tc_type c = ''function'') tcs)"
    by (simp add: processToolCalls_def processCalls_ids)
qed

definition ex_nested_chat :: ChatClient where
  "ex_nested_chat =
     (\<lambda>req.
        if map td_name (case req_tools req of None \<Rightarrow> [] | Some ts \<Rightarrow> ts) =
             [''get_date_time'', ''openproject_agent'']
        then
          (if list_ex (\<lambda>m. role m = Tool) (req_messages req)
           then Inr (Some \<lparr> cm_content = Some ''Here are the projects.'', cm_tool_calls = None \<rparr>)
           else Inr (Some \<lparr> cm_content = None,
                             cm_tool_calls = Some [ex_call ''outer_1'' ''openproject_agent''] \<rparr>))
        else
          (if list_ex (\<lambda>m. role m = Tool) (req_messages req)
           then Inr (Some \<lparr> cm_content = Some ''No projects.'', cm_tool_calls = None \<rparr>)
           else Inr (Some \<lparr> cm_content = None,
                             cm_tool_calls = Some [ex_call ''inner_1'' ''list_projects''] \<rparr>)))"

theorem nested_agent_isolation_witness:
  "getToolNames (OpenProjectToolsRegistry (impls (ex_env ex_nested_chat))) =
     [''list_projects'', ''create_work_package'', ''list_work_packages'', ''assign_user'',
      ''search_users'', ''get_metadata''] \<and>
   map (\<lambda>(k, d). (k, map tc_id (toolCalls d), map tr_tool_call_id (toolResults d)))
     (out_store (handleMessage (ex_bot_env ex_nested_chat) ([], []) ex_event)) =
     [(''99_9'', [''outer_1''], [''outer_1''])]"
proof -
  have run: "map (\<lambda>(k, d). (k, map tc_id (toolCalls d), map tr_tool_call_id (toolResults d)))
     (out_store (handleMessage (ex_bot_env ex_nested_chat) ([], []) ex_event)) =
     [(''99_9'', [''outer_1''], [''outer_1''])]"
    by code_simp
  show ?thesis
    using nested_agent_isolation [where env = "ex_env ex_nested_chat", THEN conjunct1] run
    by (intro conjI)
qed

section \<open>The assembler over the ledger that the pipeline writes\<close>

text \<open>
  The ledger has two writers, \<^verbatim>\<open>storeToolCallsForMessage\<close> called by \<^verbatim>\<open>sendResponse\<close> and
  the eviction. What is stored are the tool calls of a response and the results that
  \<^verbatim>\<open>processToolCalls\<close> made from them: one result for each call of type \<^verbatim>\<open>function\<close>, in
  order and under that call's id. Every entry of the ledger is of this shape: the empty
  ledger has no entry, and eviction, storing and the handling of a message keep it so.
\<close>

definition entryOk :: "ToolCallData \<Rightarrow> bool" where
  "entryOk toolCallData \<longleftrightarrow>
     map tr_tool_call_id (toolResults toolCallData) =
       map tc_id (filter (\<lambda>call. tc_type call = ''function'') (toolCalls toolCallData))"

definition ledgerOk :: "ToolCallsStore \<Rightarrow> bool" where
  "ledgerOk toolCallsMap = list_all (\<lambda>(key, data). entryOk data) toolCallsMap"

lemma ledgerOk_Nil: "ledgerOk []"
  by (simp add: ledgerOk_def)

lemma ledgerOk_subset: "ledgerOk m \<Longrightarrow> set m' \<subseteq> set m \<Longrightarrow> ledgerOk m'"
  by (auto simp: ledgerOk_def list_all_iff)

lemma set_cleanupLoop: "set (cleanupLoop K I ks m) \<subseteq> set m"
proof (induction ks arbitrary: m)
  case Nil
  then show ?case by simp
next
  case (Cons key keys)
  have "set (AList.delete key m) \<subseteq> set m"
    by (auto simp: AList.delete_eq)
  with Cons.IH [of m] Cons.IH [of "AList.delete key m"] show ?case
    by (auto simp: Let_def)
qed

lemma ledgerOk_cleanupOldToolCalls:
  assumes "ledgerOk toolCallsMap"
  shows "ledgerOk (cleanupOldToolCalls toolCallsMap recentMessages)"
  unfolding cleanupOldToolCalls_def by (rule ledgerOk_subset [OF assms set_cleanupLoop])

lemma set_update_subset: "set (AList.update k v al) \<subseteq> insert (k, v) (set al)"
  by (induction al) auto

lemma ledgerOk_storeToolCallsForMessage:
  assumes "ledgerOk toolCallsMap"
    and "map tr_tool_call_id trs = map tc_id (filter (\<lambda>call. tc_type call = ''function'') tcs)"
  shows "ledgerOk (storeToolCallsForMessage toolCallsMap sent tcs trs)"
  using assms set_update_subset
  unfolding ledgerOk_def list_all_iff storeToolCallsForMessage_def entryOk_def
  by fastforce

lemma processToolCalls_ids:
  "map tr_tool_call_id (processToolCalls benv tcs) =
     map tc_id (filter (\<lambda>call. tc_type call = ''function'')
                  (case tcs of None \<Rightarrow> [] | Some cs \<Rightarrow> cs))"
  by (cases tcs) (simp_all add: processToolCalls_def processCalls_ids)

lemma ledgerOk_handleMessage:
  assumes "ledgerOk L"
  shows "ledgerOk (out_store (handleMessage benv (L, cache) event))"
  using handleMessage_ledger [of benv L cache event]
proof (elim disjE exE conjE)
  assume "out_store (handleMessage benv (L, cache) event) = L"
  with assms show ?thesis by simp
next
  fix channel
  assume "out_store (handleMessage benv (L, cache) event) =
          cleanupOldToolCalls L (fetchRecentMessages channel)"
  with assms show ?thesis by (simp add: ledgerOk_cleanupOldToolCalls)
next
  fix channel response sent reply
  assume "out_store (handleMessage benv (L, cache) event) =
            storeToolCallsForMessage (cleanupOldToolCalls L (fetchRecentMessages channel)) sent
              (case resp_tool_calls response of None \<Rightarrow> [] | Some cs \<Rightarrow> cs)
              (processToolCalls benv (resp_tool_calls response))"
  then show ?thesis
    using ledgerOk_storeToolCallsForMessage
            [OF ledgerOk_cleanupOldToolCalls [OF assms] processToolCalls_ids]
    by simp
qed










end
